theory Spec2Isabelle
  imports Complex_Main "HOL-Library.Log_Nat"
begin

section \<open>ECMAScript Number values\<close>

text \<open>
  Every amount in \<^verbatim>\<open>InvoiceBuilder.ts\<close> is an ECMAScript \<^verbatim>\<open>number\<close>, an IEEE 754
  binary64 value. A finite value is carried by the rational it denotes; the two
  infinities and NaN are separate constructors. The two zeros are identified: the
  builder never divides by a variable and never inspects the sign of a zero
  (\<^verbatim>\<open>toFixed\<close>, \<^verbatim>\<open>||\<close> and the comparisons treat \<^verbatim>\<open>-0\<close> as \<^verbatim>\<open>0\<close>).
\<close>

datatype number = Num rat | PosInf | NegInf | NaN

text \<open>Powers of two with an integer exponent.\<close>

definition pow2 :: "int \<Rightarrow> rat" where
  "pow2 k = (if 0 \<le> k then 2 ^ nat k else 1 / 2 ^ nat (- k))"

text \<open>The exponent \<open>e\<close> with \<open>pow2 e \<le> a < pow2 (e + 1)\<close>, for \<open>a > 0\<close>.\<close>

definition floor_log2 :: "rat \<Rightarrow> int" where
  "floor_log2 a =
     (if 1 \<le> a then bitlen \<lfloor>a\<rfloor> - 1
      else let t = bitlen \<lfloor>1 / a\<rfloor> - 1
           in if a * 2 ^ nat t = 1 then - t else - t - 1)"

text \<open>
  Rounding to the nearest integer, ties to the even one (the IEEE 754 default
  rounding attribute).
\<close>

definition round_half_even :: "rat \<Rightarrow> int" where
  "round_half_even q =
     (let n = \<lfloor>q\<rfloor>; r = q - of_int n
      in if r < 1 / 2 then n else if 1 / 2 < r then n + 1
         else if even n then n else n + 1)"

text \<open>
  The Number value for a real: the nearest binary64 value (53 significant bits,
  exponents from -1022, subnormals below), with overflow to an infinity.
\<close>

definition number_value :: "rat \<Rightarrow> number" where
  "number_value x =
     (if x = 0 then Num 0
      else let a = \<bar>x\<bar>;
               e = max (floor_log2 a) (- 1022);
               u = pow2 (e - 52);
               y = of_int (round_half_even (a / u)) * u
           in if pow2 1024 \<le> y then (if x < 0 then NegInf else PosInf)
              else Num (if x < 0 then - y else y))"

text \<open>Number::multiply, Number::add and Number::divide.\<close>

fun js_mul :: "number \<Rightarrow> number \<Rightarrow> number" where
  "js_mul (Num a) (Num b) = number_value (a * b)"
| "js_mul NaN _ = NaN"
| "js_mul _ NaN = NaN"
| "js_mul (Num a) PosInf = (if a = 0 then NaN else if a < 0 then NegInf else PosInf)"
| "js_mul (Num a) NegInf = (if a = 0 then NaN else if a < 0 then PosInf else NegInf)"
| "js_mul PosInf (Num b) = (if b = 0 then NaN else if b < 0 then NegInf else PosInf)"
| "js_mul NegInf (Num b) = (if b = 0 then NaN else if b < 0 then PosInf else NegInf)"
| "js_mul PosInf PosInf = PosInf"
| "js_mul PosInf NegInf = NegInf"
| "js_mul NegInf PosInf = NegInf"
| "js_mul NegInf NegInf = PosInf"

fun js_add :: "number \<Rightarrow> number \<Rightarrow> number" where
  "js_add (Num a) (Num b) = number_value (a + b)"
| "js_add NaN _ = NaN"
| "js_add _ NaN = NaN"
| "js_add PosInf NegInf = NaN"
| "js_add NegInf PosInf = NaN"
| "js_add PosInf _ = PosInf"
| "js_add NegInf _ = NegInf"
| "js_add _ PosInf = PosInf"
| "js_add _ NegInf = NegInf"

text \<open>
  Division is only ever by the literal \<^verbatim>\<open>100\<close>; a zero divisor is given the
  result for \<^verbatim>\<open>+0\<close>.
\<close>

fun js_div :: "number \<Rightarrow> number \<Rightarrow> number" where
  "js_div (Num a) (Num b) =
     (if b = 0 then (if a = 0 then NaN else if a < 0 then NegInf else PosInf)
      else number_value (a / b))"
| "js_div NaN _ = NaN"
| "js_div _ NaN = NaN"
| "js_div (Num a) _ = Num 0"
| "js_div PosInf (Num b) = (if b < 0 then NegInf else PosInf)"
| "js_div NegInf (Num b) = (if b < 0 then PosInf else NegInf)"
| "js_div _ _ = NaN"

text \<open>The relational operators: every comparison with NaN is false.\<close>

fun js_lt :: "number \<Rightarrow> number \<Rightarrow> bool" where
  "js_lt NaN _ = False"
| "js_lt _ NaN = False"
| "js_lt (Num a) (Num b) = (a < b)"
| "js_lt _ NegInf = False"
| "js_lt NegInf _ = True"
| "js_lt PosInf _ = False"
| "js_lt _ PosInf = True"

definition js_gt :: "number \<Rightarrow> number \<Rightarrow> bool" where
  "js_gt a b = js_lt b a"

definition js_le :: "number \<Rightarrow> number \<Rightarrow> bool" where
  "js_le a b = (a \<noteq> NaN \<and> b \<noteq> NaN \<and> \<not> js_lt b a)"

text \<open>ToBoolean on a Number: zero and NaN are falsy.\<close>

definition truthy :: "number \<Rightarrow> bool" where
  "truthy x = (x \<noteq> Num 0 \<and> x \<noteq> NaN)"


section \<open>Strings\<close>

text \<open>
  A \<^typ>\<open>string\<close> stands for an ECMAScript string in its UTF-8 encoding, one
  \<^typ>\<open>char\<close> per byte. White space is what \<^verbatim>\<open>String.prototype.trim\<close> and
  \<^verbatim>\<open>parseFloat\<close> strip: the WhiteSpace and LineTerminator code points.
\<close>

definition ws1 :: "char \<Rightarrow> bool" where
  "ws1 c = (c \<in> set [CHR 0x09, CHR 0x0A, CHR 0x0B, CHR 0x0C, CHR 0x0D, CHR 0x20])"

definition ws2 :: "char \<Rightarrow> char \<Rightarrow> bool" where
  "ws2 c1 c2 = (c1 = CHR 0xC2 \<and> c2 = CHR 0xA0)"

definition ws3 :: "char \<Rightarrow> char \<Rightarrow> char \<Rightarrow> bool" where
  "ws3 c1 c2 c3 =
     ((c1 = CHR 0xE1 \<and> c2 = CHR 0x9A \<and> c3 = CHR 0x80) \<or>
      (c1 = CHR 0xE2 \<and> c2 = CHR 0x80 \<and>
         c3 \<in> set [CHR 0x80, CHR 0x81, CHR 0x82, CHR 0x83, CHR 0x84, CHR 0x85, CHR 0x86,
                   CHR 0x87, CHR 0x88, CHR 0x89, CHR 0x8A, CHR 0xA8, CHR 0xA9, CHR 0xAF]) \<or>
      (c1 = CHR 0xE2 \<and> c2 = CHR 0x81 \<and> c3 = CHR 0x9F) \<or>
      (c1 = CHR 0xE3 \<and> c2 = CHR 0x80 \<and> c3 = CHR 0x80) \<or>
      (c1 = CHR 0xEF \<and> c2 = CHR 0xBB \<and> c3 = CHR 0xBF))"

fun trim_start :: "string \<Rightarrow> string" where
  "trim_start (c1 # c2 # c3 # r) =
     (if ws1 c1 then trim_start (c2 # c3 # r)
      else if ws2 c1 c2 then trim_start (c3 # r)
      else if ws3 c1 c2 c3 then trim_start r
      else c1 # c2 # c3 # r)"
| "trim_start [c1, c2] =
     (if ws1 c1 then trim_start [c2] else if ws2 c1 c2 then [] else [c1, c2])"
| "trim_start [c1] = (if ws1 c1 then [] else [c1])"
| "trim_start [] = []"

text \<open>The same on the reversed string: the bytes of the last code point come first.\<close>

fun trim_start_rev :: "string \<Rightarrow> string" where
  "trim_start_rev (c3 # c2 # c1 # r) =
     (if ws1 c3 then trim_start_rev (c2 # c1 # r)
      else if ws2 c2 c3 then trim_start_rev (c1 # r)
      else if ws3 c1 c2 c3 then trim_start_rev r
      else c3 # c2 # c1 # r)"
| "trim_start_rev [c3, c2] =
     (if ws1 c3 then trim_start_rev [c2] else if ws2 c2 c3 then [] else [c3, c2])"
| "trim_start_rev [c3] = (if ws1 c3 then [] else [c3])"
| "trim_start_rev [] = []"

definition trim :: "string \<Rightarrow> string" where
  "trim s = rev (trim_start_rev (rev (trim_start s)))"

subsection \<open>Decimal digits\<close>

definition digit_char :: "nat \<Rightarrow> char" where
  "digit_char d = ''0123456789'' ! d"

fun digits :: "nat \<Rightarrow> string" where
  "digits n = (if n < 10 then [digit_char n] else digits (n div 10) @ [digit_char (n mod 10)])"

declare digits.simps [simp del]

definition is_digit :: "char \<Rightarrow> bool" where
  "is_digit c = (c \<in> set ''0123456789'')"

definition digit_val :: "char \<Rightarrow> nat" where
  "digit_val c = of_char c - 48"

definition digits_value :: "string \<Rightarrow> nat" where
  "digits_value ds = foldl (\<lambda>a c. 10 * a + digit_val c) 0 ds"

definition pow10 :: "int \<Rightarrow> rat" where
  "pow10 k = (if 0 \<le> k then 10 ^ nat k else 1 / 10 ^ nat (- k))"

section \<open>Number to string and back\<close>

text \<open>
  Number::toString for a positive finite value \<open>a\<close> looks for \<open>n\<close>, \<open>k\<close> and \<open>s\<close>
  with \<open>10 ^ (k - 1) \<le> s < 10 ^ k\<close>, the Number value for \<open>s * 10 ^ (n - k)\<close> being \<open>a\<close>,
  and \<open>k\<close> as small as possible. \<open>dec_exp a\<close> is the \<open>n\<close> with
  \<open>10 ^ (n - 1) \<le> a < 10 ^ n\<close>; for each \<open>k\<close> only the two \<open>k\<close>-digit decimals
  around \<open>a\<close> can qualify, and of two that do the closer one is taken (the even one
  on a tie).
\<close>

definition dec_exp :: "rat \<Rightarrow> int" where
  "dec_exp a =
     (if 1 \<le> a then int (length (digits (nat \<lfloor>a\<rfloor>)))
      else let t = int (length (digits (nat \<lfloor>1 / a\<rfloor>)))
           in if a * 10 ^ nat (t - 1) = 1 then 2 - t else 1 - t)"

definition digits_at :: "rat \<Rightarrow> int \<Rightarrow> nat \<Rightarrow> int option" where
  "digits_at a n k =
     (let sc = a / pow10 (n - int k);
          lo = \<lfloor>sc\<rfloor>;
          hi = lo + 1;
          ok_lo = (number_value (of_int lo * pow10 (n - int k)) = Num a);
          ok_hi = (number_value (of_int hi * pow10 (n - int k)) = Num a)
      in if ok_lo \<and> ok_hi then
           (if sc - of_int lo < of_int hi - sc then Some lo
            else if of_int hi - sc < sc - of_int lo then Some hi
            else if even lo then Some lo else Some hi)
         else if ok_lo then Some lo
         else if ok_hi then Some hi
         else None)"

text \<open>
  Seventeen digits always suffice for a binary64 value; the last equation is only
  reached by a rational that is not one.
\<close>

fun shortest_digits :: "rat \<Rightarrow> int \<Rightarrow> nat \<Rightarrow> nat \<Rightarrow> int \<times> nat" where
  "shortest_digits a n 0 k = (\<lfloor>a / pow10 (n - int k)\<rfloor>, k)"
| "shortest_digits a n (Suc fuel) k =
     (case digits_at a n k of
        Some s \<Rightarrow> (s, k)
      | None \<Rightarrow> shortest_digits a n fuel (Suc k))"

fun strip_zeros_rev :: "string \<Rightarrow> string" where
  "strip_zeros_rev (c # r) = (if c = CHR ''0'' \<and> r \<noteq> [] then strip_zeros_rev r else c # r)"
| "strip_zeros_rev [] = []"

definition sign_str :: "int \<Rightarrow> string" where
  "sign_str e = (if e < 0 then ''-'' else ''+'')"

definition format_digits :: "string \<Rightarrow> int \<Rightarrow> string" where
  "format_digits ds n =
     (let k = int (length ds)
      in if k \<le> n \<and> n \<le> 21 then ds @ replicate (nat (n - k)) (CHR ''0'')
         else if 0 < n \<and> n \<le> 21 then take (nat n) ds @ ''.'' @ drop (nat n) ds
         else if - 6 < n \<and> n \<le> 0 then ''0.'' @ replicate (nat (- n)) (CHR ''0'') @ ds
         else if k = 1 then ds @ ''e'' @ sign_str (n - 1) @ digits (nat \<bar>n - 1\<bar>)
         else take 1 ds @ ''.'' @ drop 1 ds @ ''e'' @ sign_str (n - 1) @ digits (nat \<bar>n - 1\<bar>))"

text \<open>
  The upper candidate can be \<open>10 ^ k\<close>, one digit longer; its trailing zeros are not
  digits of \<open>s\<close>, and \<open>n\<close> moves up by as much.
\<close>

definition positive_to_string :: "rat \<Rightarrow> string" where
  "positive_to_string a =
     (let n0 = dec_exp a;
          (s, k) = shortest_digits a n0 17 1;
          all = digits (nat s);
          ds = rev (strip_zeros_rev (rev all))
      in format_digits ds (n0 + int (length all) - int k))"

fun number_to_string :: "number \<Rightarrow> string" where
  "number_to_string NaN = ''NaN''"
| "number_to_string PosInf = ''Infinity''"
| "number_to_string NegInf = ''-Infinity''"
| "number_to_string (Num x) =
     (if x = 0 then ''0''
      else if x < 0 then ''-'' @ positive_to_string (- x)
      else positive_to_string x)"

text \<open>
  \<^verbatim>\<open>Number.prototype.toFixed(2)\<close>: a value that is not finite, or of magnitude
  \<open>10 ^ 21\<close> or more, is rendered by Number::toString. Otherwise \<open>n\<close> is the integer
  for which \<open>n / 100 - x\<close> is closest to zero, the larger one of two; its digits
  are padded to three and the point goes before the last two.
\<close>

fun toFixed2 :: "number \<Rightarrow> string" where
  "toFixed2 (Num x) =
     (if 10 ^ 21 \<le> \<bar>x\<bar> then number_to_string (Num x)
      else let n = nat \<lfloor>\<bar>x\<bar> * 100 + 1 / 2\<rfloor>;
               m = digits n;
               m' = replicate (3 - length m) (CHR ''0'') @ m
           in (if x < 0 then ''-'' else []) @
              take (length m' - 2) m' @ ''.'' @ drop (length m' - 2) m')"
| "toFixed2 x = number_to_string x"

text \<open>
  \<^verbatim>\<open>parseFloat\<close>: leading white space is dropped, and the longest prefix that is a
  StrDecimalLiteral (a sign, then \<^verbatim>\<open>Infinity\<close> or digits with an optional fraction
  and exponent) is converted; without such a prefix the result is NaN.
\<close>

definition exponent_part :: "string \<Rightarrow> int" where
  "exponent_part r =
     (case r of
        [] \<Rightarrow> 0
      | c # r1 \<Rightarrow>
          if c = CHR ''e'' \<or> c = CHR ''E'' then
            (let neg = (r1 \<noteq> [] \<and> hd r1 = CHR ''-'');
                 r2 = (if r1 \<noteq> [] \<and> (hd r1 = CHR ''-'' \<or> hd r1 = CHR ''+'') then tl r1 else r1);
                 ds = takeWhile is_digit r2
             in if ds = [] then 0
                else if neg then - int (digits_value ds) else int (digits_value ds))
          else 0)"

definition parseFloat :: "string \<Rightarrow> number" where
  "parseFloat str =
     (let t = trim_start str;
          neg = (t \<noteq> [] \<and> hd t = CHR ''-'');
          u = (if t \<noteq> [] \<and> (hd t = CHR ''-'' \<or> hd t = CHR ''+'') then tl t else t)
      in if take 8 u = ''Infinity'' then (if neg then NegInf else PosInf)
         else
           let ip = takeWhile is_digit u;
               r1 = dropWhile is_digit u;
               dot = (r1 \<noteq> [] \<and> hd r1 = CHR ''.'');
               fp = (if dot then takeWhile is_digit (tl r1) else []);
               r2 = (if dot then dropWhile is_digit (tl r1) else r1)
           in if ip = [] \<and> fp = [] then NaN
              else
                let v = of_nat (digits_value (ip @ fp)) *
                        pow10 (exponent_part r2 - int (length fp))
                in number_value (if neg then - v else v))"

section \<open>The invoice data model\<close>

text \<open>
  The interfaces \<^verbatim>\<open>Address\<close>, \<^verbatim>\<open>Party\<close>, \<^verbatim>\<open>InvoiceLine\<close> and \<^verbatim>\<open>InvoiceInput\<close>.
  A field is an \<^typ>\<open>'a option\<close> where the interface declares it optional, and also
  where the validator tests a required field for presence: \<open>None\<close> is
  \<^verbatim>\<open>undefined\<close>. The amounts \<^verbatim>\<open>quantity\<close> and \<^verbatim>\<open>unitPrice\<close> are numbers, as declared
  (the \<^verbatim>\<open>typeof\<close> guards of \<^verbatim>\<open>validateLine\<close> hold for every such value).
\<close>

record Address =
  street :: "string option"
  city :: "string option"
  postalZone :: "string option"
  county :: "string option"
  countryCode :: "string option"

record Party =
  registrationName :: "string option"
  companyId :: "string option"
  isVatPayer :: "bool option"
  address :: "Address option"

datatype InvoiceTypeCode = COMMERCIAL_INVOICE | INVOICE_INFORMATION_FOR_ACCOUNTING_PURPOSES

fun type_code_value :: "InvoiceTypeCode \<Rightarrow> string" where
  "type_code_value COMMERCIAL_INVOICE = ''380''"
| "type_code_value INVOICE_INFORMATION_FOR_ACCOUNTING_PURPOSES = ''751''"

text \<open>
  A line id is a string or a number, a date a string or a Date object (given by its
  time value).
\<close>

datatype line_id = IdString string | IdNumber number

datatype date_value = DateString string | DateObject number

record InvoiceLine =
  lineId :: "line_id option"
  name :: "string option"
  description :: "string option"
  quantity :: number
  unitCode :: "string option"
  unitPrice :: number
  taxPercent :: "number option"

record InvoiceInput =
  invoiceTypeCode :: "InvoiceTypeCode option"
  invoiceNumber :: "string option"
  issueDate :: "date_value option"
  dueDate :: "date_value option"
  currency :: "string option"
  supplier :: "Party option"
  customer :: "Party option"
  lines :: "InvoiceLine list option"
  paymentIban :: "string option"

record TaxGroup =
  categoryId :: string
  percent :: number
  taxableAmount :: number
  taxAmount :: number
  exemptionReasonCode :: "string option"

section \<open>Line amounts and tax groups\<close>

text \<open>\<^verbatim>\<open>line.taxPercent || 0\<close>: an absent, zero or NaN percent is \<open>0\<close>.\<close>

definition taxPercent_or_0 :: "InvoiceLine \<Rightarrow> number" where
  "taxPercent_or_0 line =
     (case taxPercent line of
        None \<Rightarrow> Num 0
      | Some p \<Rightarrow> if truthy p then p else Num 0)"

definition calculateLineExtension :: "InvoiceLine \<Rightarrow> number" where
  "calculateLineExtension line =
     (let roundedUnitPrice = parseFloat (toFixed2 (unitPrice line))
      in parseFloat (toFixed2 (js_mul (quantity line) roundedUnitPrice)))"

text \<open>
  The map of \<^verbatim>\<open>groupLinesByTax\<close> is an association list in insertion order: a
  key that is present keeps its place when its group is updated, a new key goes
  to the end, and \<^verbatim>\<open>values()\<close> lists the groups in that order. The key string,
  the category, a dash and the percent, is carried as the pair it encodes (the
  category is one letter and Number::toString is one-to-one on Number values).
\<close>

type_synonym tax_key = "string \<times> number"

definition map_has :: "(tax_key \<times> TaxGroup) list \<Rightarrow> tax_key \<Rightarrow> bool" where
  "map_has m k = (k \<in> set (map fst m))"

fun map_modify :: "tax_key \<Rightarrow> (TaxGroup \<Rightarrow> TaxGroup) \<Rightarrow> (tax_key \<times> TaxGroup) list
    \<Rightarrow> (tax_key \<times> TaxGroup) list" where
  "map_modify k f [] = []"
| "map_modify k f ((k', g) # m) =
     (if k' = k then (k', f g) # m else (k', g) # map_modify k f m)"

definition map_set :: "tax_key \<Rightarrow> TaxGroup \<Rightarrow> (tax_key \<times> TaxGroup) list
    \<Rightarrow> (tax_key \<times> TaxGroup) list" where
  "map_set k g m = (if map_has m k then map_modify k (\<lambda>_. g) m else m @ [(k, g)])"

definition map_values :: "(tax_key \<times> TaxGroup) list \<Rightarrow> TaxGroup list" where
  "map_values m = map snd m"

text \<open>The body of the \<^verbatim>\<open>forEach\<close> of \<^verbatim>\<open>groupLinesByTax\<close>, for one line.\<close>

definition group_line :: "bool \<Rightarrow> (tax_key \<times> TaxGroup) list \<Rightarrow> InvoiceLine
    \<Rightarrow> (tax_key \<times> TaxGroup) list" where
  "group_line isSupplierVatPayer taxGroups line =
     (let taxPercent = taxPercent_or_0 line;
          lineExtension = calculateLineExtension line;
          taxAmount = parseFloat (toFixed2 (js_mul lineExtension (js_div taxPercent (Num 100))));
          (categoryId, exemptionReasonCode) =
            (if \<not> isSupplierVatPayer then (''O'', Some ''VATEX-EU-O'')
             else if js_gt taxPercent (Num 0) then (''S'', None)
             else (''Z'', None));
          key = (categoryId, taxPercent)
      in if map_has taxGroups key then
           map_modify key
             (\<lambda>group. group
                \<lparr>taxableAmount :=
                   parseFloat (toFixed2 (js_add (TaxGroup.taxableAmount group) lineExtension)),
                 taxAmount :=
                   parseFloat (toFixed2 (js_add (TaxGroup.taxAmount group) taxAmount))\<rparr>)
             taxGroups
         else
           map_set key
             \<lparr>categoryId = categoryId, percent = taxPercent, taxableAmount = lineExtension,
              taxAmount = taxAmount, exemptionReasonCode = exemptionReasonCode\<rparr>
             taxGroups)"

definition groupLinesByTax :: "InvoiceLine list \<Rightarrow> bool \<Rightarrow> TaxGroup list" where
  "groupLinesByTax ls isSupplierVatPayer =
     map_values (foldl (group_line isSupplierVatPayer) [] ls)"

section \<open>Input validation\<close>

text \<open>
  The two ways \<^verbatim>\<open>buildInvoiceXml\<close> can fail. \<^verbatim>\<open>AnafValidationError\<close> carries its
  message. \<^verbatim>\<open>TypeError\<close> is what the runtime raises when a property of
  \<^verbatim>\<open>undefined\<close> is read; the model also raises it where an absent string would be
  handed to the XML library.
\<close>

datatype error = AnafValidationError string | TypeError

text \<open>\<^verbatim>\<open>!s?.trim()\<close>: the string is absent, empty or white space only.\<close>

definition blank :: "string option \<Rightarrow> bool" where
  "blank s = (case s of None \<Rightarrow> True | Some t \<Rightarrow> trim t = [])"

definition validateAddress :: "Address \<Rightarrow> string \<Rightarrow> error + unit" where
  "validateAddress addr role =
     (if blank (street addr) then
        Inl (AnafValidationError (role @ '' street address is required''))
      else if blank (city addr) then
        Inl (AnafValidationError (role @ '' city is required''))
      else if blank (postalZone addr) then
        Inl (AnafValidationError (role @ '' postal zone is required''))
      else Inr ())"

definition validateParty :: "Party \<Rightarrow> string \<Rightarrow> error + unit" where
  "validateParty party role =
     (if blank (registrationName party) then
        Inl (AnafValidationError (role @ '' registration name is required''))
      else if blank (companyId party) then
        Inl (AnafValidationError (role @ '' company ID is required''))
      else case address party of
        None \<Rightarrow> Inl (AnafValidationError (role @ '' address is required''))
      | Some a \<Rightarrow> validateAddress a role)"

text \<open>
  The index is the position in the array, from \<open>0\<close>; the message names
  \<^verbatim>\<open>index + 1\<close>, a small integer, which Number::toString renders by its digits.
\<close>

definition validateLine :: "InvoiceLine \<Rightarrow> nat \<Rightarrow> error + unit" where
  "validateLine line index =
     (if blank (name line) then
        Inl (AnafValidationError (''Line '' @ digits (index + 1) @ '': Name is required''))
      else if js_le (quantity line) (Num 0) then
        Inl (AnafValidationError
          (''Line '' @ digits (index + 1) @ '': Quantity must be a positive number''))
      else if js_lt (unitPrice line) (Num 0) then
        Inl (AnafValidationError
          (''Line '' @ digits (index + 1) @ '': Unit price must be a non-negative number''))
      else case taxPercent line of
        None \<Rightarrow> Inr ()
      | Some t \<Rightarrow>
          if js_lt t (Num 0) \<or> js_gt t (Num 100) then
            Inl (AnafValidationError
              (''Line '' @ digits (index + 1) @ '': Tax percent must be between 0 and 100''))
          else Inr ())"

text \<open>
  \<^verbatim>\<open>input.lines.forEach((line, index) => validateLine(line, index))\<close>: the first
  line that fails ends the loop with its error.
\<close>

fun validateLines :: "InvoiceLine list \<Rightarrow> nat \<Rightarrow> error + unit" where
  "validateLines [] index = Inr ()"
| "validateLines (line # rest) index =
     (case validateLine line index of
        Inl e \<Rightarrow> Inl e
      | Inr _ \<Rightarrow> validateLines rest (index + 1))"

text \<open>\<^verbatim>\<open>!input.issueDate\<close>: absent, or the empty string; a Date object is truthy.\<close>

fun date_truthy :: "date_value \<Rightarrow> bool" where
  "date_truthy (DateString s) = (s \<noteq> [])"
| "date_truthy (DateObject t) = True"

definition validateInvoiceInput :: "InvoiceInput option \<Rightarrow> error + unit" where
  "validateInvoiceInput input =
     (case input of
        None \<Rightarrow> Inl (AnafValidationError ''Invoice input data is required'')
      | Some inp \<Rightarrow>
          if blank (invoiceNumber inp) then
            Inl (AnafValidationError ''Invoice number is required'')
          else if (case issueDate inp of None \<Rightarrow> True | Some d \<Rightarrow> \<not> date_truthy d) then
            Inl (AnafValidationError ''Issue date is required'')
          else case supplier inp of
            None \<Rightarrow> Inl (AnafValidationError ''Supplier information is required'')
          | Some s \<Rightarrow>
              (case validateParty s ''Supplier'' of
                 Inl e \<Rightarrow> Inl e
               | Inr _ \<Rightarrow>
                   (case customer inp of
                      None \<Rightarrow> Inl (AnafValidationError ''Customer information is required'')
                    | Some c \<Rightarrow>
                        (case validateParty c ''Customer'' of
                           Inl e \<Rightarrow> Inl e
                         | Inr _ \<Rightarrow>
                             (case lines inp of
                                None \<Rightarrow>
                                  Inl (AnafValidationError ''Invoice lines array is required'')
                              | Some ls \<Rightarrow>
                                  if length ls > 0 then validateLines ls 0 else Inr ())))))"

section \<open>The XML builder\<close>

text \<open>
  The document under construction is a tree; a builder object of \<^verbatim>\<open>xmlbuilder2\<close> is a
  reference to one of its nodes, here the path of child positions from the root
  element. \<^verbatim>\<open>ele\<close> appends a new element to the node and returns the new element,
  \<^verbatim>\<open>txt\<close> appends a text node and returns the node itself, \<^verbatim>\<open>up\<close> returns the
  parent. A chain of calls is a list of operations run from left to right.
\<close>

datatype xml = Element string "(string \<times> string) list" "xml list" | Text string

fun append_at :: "nat list \<Rightarrow> xml \<Rightarrow> xml \<Rightarrow> xml" where
  "append_at [] c (Element n a cs) = Element n a (cs @ [c])"
| "append_at (i # p) c (Element n a cs) =
     (if i < length cs then Element n a (cs[i := append_at p c (cs ! i)]) else Element n a cs)"
| "append_at p c (Text t) = Text t"

fun child_count :: "nat list \<Rightarrow> xml \<Rightarrow> nat" where
  "child_count [] (Element n a cs) = length cs"
| "child_count (i # p) (Element n a cs) = (if i < length cs then child_count p (cs ! i) else 0)"
| "child_count p (Text t) = 0"

type_synonym builder = "xml \<times> nat list"

datatype op = Ele string "(string \<times> string) list" | Txt string | Up

fun step :: "builder \<Rightarrow> op \<Rightarrow> builder" where
  "step (doc, p) (Ele n a) = (append_at p (Element n a []) doc, p @ [child_count p doc])"
| "step (doc, p) (Txt s) = (append_at p (Text s) doc, p)"
| "step (doc, p) Up = (doc, butlast p)"

definition run :: "builder \<Rightarrow> op list \<Rightarrow> builder" where
  "run b ops = foldl step b ops"

text \<open>
  A reference taken earlier, used on the document as a later chain left it.
\<close>

definition at_ref :: "builder \<Rightarrow> builder \<Rightarrow> builder" where
  "at_ref r b = (fst b, snd r)"

text \<open>\<^verbatim>\<open>s || ''\<close> and \<^verbatim>\<open>s || d\<close> on an optional string.\<close>

definition or_empty :: "string option \<Rightarrow> string" where
  "or_empty s = (case s of None \<Rightarrow> [] | Some t \<Rightarrow> t)"

definition or_default :: "string option \<Rightarrow> string \<Rightarrow> string" where
  "or_default s d = (case s of None \<Rightarrow> d | Some t \<Rightarrow> if t = [] then d else t)"

section \<open>What the builder imports\<close>

text \<open>
  The modules \<^verbatim>\<open>constants\<close>, \<^verbatim>\<open>utils/dateUtils\<close>, \<^verbatim>\<open>utils/validators\<close> and
  \<^verbatim>\<open>ubl/address-sanitizer\<close> are parameters of the builder: the four constants, the
  date formatter, the VAT number normaliser and the three address functions.
\<close>

record modules =
  UBL_CUSTOMIZATION_ID :: string
  DEFAULT_CURRENCY :: string
  DEFAULT_COUNTRY_CODE :: string
  DEFAULT_UNIT_CODE :: string
  formatDateForAnaf :: "date_value \<Rightarrow> string"
  normalizeVatNumber :: "string \<Rightarrow> string"
  sanitize_county :: "string option \<Rightarrow> string option"
  is_bucharest :: "string option \<Rightarrow> bool"
  sanitize_bucharest_sector :: "string option \<Rightarrow> string option"

section \<open>Building the document\<close>

text \<open>
  \<^verbatim>\<open>txt\<close> with an absent value appends nothing. The party's address is read
  before anything is written, so an absent address raises; \<^verbatim>\<open>normalizeVatNumber\<close> is
  declared on strings only, and its call with an absent company id is taken to
  raise as well.
\<close>

definition txt_opt :: "string option \<Rightarrow> op list" where
  "txt_opt s = (case s of None \<Rightarrow> [] | Some t \<Rightarrow> [Txt t])"

definition buildPartyXml :: "modules \<Rightarrow> builder \<Rightarrow> string \<Rightarrow> Party \<Rightarrow> error + xml" where
  "buildPartyXml m rootElement tagName party =
     (let partyElement = run rootElement [Ele tagName [], Ele ''cac:Party'' []]
      in case address party of
           None \<Rightarrow> Inl TypeError
         | Some addr \<Rightarrow>
          (let county = sanitize_county m (Address.county addr);
               city = (if is_bucharest m county
                       then sanitize_bucharest_sector m (Address.city addr)
                       else Address.city addr);
               b1 = run partyElement
                 [Ele ''cac:PostalAddress'' [],
                  Ele ''cbc:StreetName'' [], Txt (or_empty (street addr)), Up,
                  Ele ''cbc:CityName'' [], Txt (or_empty city), Up,
                  Ele ''cbc:PostalZone'' [], Txt (or_empty (postalZone addr)), Up,
                  Ele ''cbc:CountrySubentity'' [], Txt (or_empty county), Up,
                  Ele ''cac:Country'' [],
                  Ele ''cbc:IdentificationCode'' [],
                  Txt (or_default (countryCode addr) (DEFAULT_COUNTRY_CODE m)), Up,
                  Up, Up]
           in case (if isVatPayer party = Some True then
                      (case companyId party of
                         None \<Rightarrow> Inl TypeError
                       | Some compId \<Rightarrow>
                           Inr (run (at_ref partyElement b1)
                             [Ele ''cac:PartyTaxScheme'' [],
                              Ele ''cbc:CompanyID'' [], Txt (normalizeVatNumber m compId), Up,
                              Ele ''cac:TaxScheme'' [],
                              Ele ''cbc:ID'' [], Txt ''VAT'', Up,
                              Up, Up]))
                    else Inr b1) of
                Inl e \<Rightarrow> Inl e
              | Inr b2 \<Rightarrow>
                  Inr (fst (run (at_ref partyElement b2)
                    ([Ele ''cac:PartyLegalEntity'' [], Ele ''cbc:RegistrationName'' []] @
                     txt_opt (registrationName party) @
                     [Up, Ele ''cbc:CompanyID'' []] @
                     txt_opt (companyId party) @
                     [Up, Up])))))"

text \<open>The totals of \<^verbatim>\<open>buildInvoiceXml\<close>: two \<^verbatim>\<open>reduce\<close> calls from \<open>0\<close> and a rounding.\<close>

definition totalTaxableAmount :: "TaxGroup list \<Rightarrow> number" where
  "totalTaxableAmount taxGroups =
     foldl (\<lambda>sum group. js_add sum (TaxGroup.taxableAmount group)) (Num 0) taxGroups"

definition totalTaxAmount :: "TaxGroup list \<Rightarrow> number" where
  "totalTaxAmount taxGroups =
     foldl (\<lambda>sum group. js_add sum (TaxGroup.taxAmount group)) (Num 0) taxGroups"

definition grandTotal :: "TaxGroup list \<Rightarrow> number" where
  "grandTotal taxGroups =
     parseFloat (toFixed2 (js_add (totalTaxableAmount taxGroups) (totalTaxAmount taxGroups)))"

text \<open>The body of the loop over the tax groups, from the \<^verbatim>\<open>cac:TaxTotal\<close> element.\<close>

definition tax_subtotal :: "string \<Rightarrow> builder \<Rightarrow> builder \<Rightarrow> TaxGroup \<Rightarrow> builder" where
  "tax_subtotal cur taxTotalElement b g =
     (let subtotalElement = run (at_ref taxTotalElement b)
            [Ele ''cac:TaxSubtotal'' [],
             Ele ''cbc:TaxableAmount'' [(''currencyID'', cur)],
             Txt (toFixed2 (TaxGroup.taxableAmount g)), Up,
             Ele ''cbc:TaxAmount'' [(''currencyID'', cur)],
             Txt (toFixed2 (TaxGroup.taxAmount g)), Up,
             Ele ''cac:TaxCategory'' [],
             Ele ''cbc:ID'' [], Txt (categoryId g), Up,
             Ele ''cbc:Percent'' [], Txt (toFixed2 (percent g)), Up];
          b1 = (case exemptionReasonCode g of
                  None \<Rightarrow> subtotalElement
                | Some code \<Rightarrow>
                    if code = [] then subtotalElement
                    else at_ref subtotalElement
                           (run subtotalElement
                              [Ele ''cbc:TaxExemptionReasonCode'' [], Txt code, Up]))
      in run (at_ref subtotalElement b1)
           [Ele ''cac:TaxScheme'' [], Ele ''cbc:ID'' [], Txt ''VAT'', Up, Up, Up])"

text \<open>The body of the loop over the lines, from the root element.\<close>

definition invoice_line :: "modules \<Rightarrow> string \<Rightarrow> bool \<Rightarrow> builder \<Rightarrow> builder
    \<Rightarrow> InvoiceLine \<Rightarrow> nat \<Rightarrow> error + builder" where
  "invoice_line m cur isSupplierVatPayer rootElement b line index =
     (let lineId =
            (case lineId line of
               None \<Rightarrow> digits (index + 1)
             | Some (IdString s) \<Rightarrow> if s = [] then digits (index + 1) else s
             | Some (IdNumber n) \<Rightarrow> number_to_string n);
          lineExtension = calculateLineExtension line;
          taxPercent = taxPercent_or_0 line;
          roundedUnitPrice = parseFloat (toFixed2 (unitPrice line));
          lineTaxCategory =
            (if \<not> isSupplierVatPayer then ''O''
             else if js_gt taxPercent (Num 0) then ''S''
             else ''Z'');
          lineElement = run (at_ref rootElement b)
            ([Ele ''cac:InvoiceLine'' [],
              Ele ''cbc:ID'' [], Txt lineId, Up,
              Ele ''cbc:InvoicedQuantity''
                [(''unitCode'', or_default (unitCode line) (DEFAULT_UNIT_CODE m))],
              Txt (number_to_string (quantity line)), Up,
              Ele ''cbc:LineExtensionAmount'' [(''currencyID'', cur)],
              Txt (toFixed2 lineExtension), Up,
              Ele ''cac:Item'' [],
              Ele ''cbc:Name'' []] @
             txt_opt (name line) @
             [Up]);
          b1 = (case description line of
                  None \<Rightarrow> lineElement
                | Some d \<Rightarrow>
                    if d = [] then lineElement
                    else run lineElement [Ele ''cbc:Description'' [], Txt d, Up])
      in Inr (run (at_ref lineElement b1)
           [Ele ''cac:ClassifiedTaxCategory'' [],
            Ele ''cbc:ID'' [], Txt lineTaxCategory, Up,
            Ele ''cbc:Percent'' [], Txt (toFixed2 taxPercent), Up,
            Ele ''cac:TaxScheme'' [],
            Ele ''cbc:ID'' [], Txt ''VAT'', Up,
            Up, Up, Up,
            Ele ''cac:Price'' [],
            Ele ''cbc:PriceAmount'' [(''currencyID'', cur)],
            Txt (toFixed2 roundedUnitPrice), Up,
            Up, Up]))"

fun invoice_lines :: "modules \<Rightarrow> string \<Rightarrow> bool \<Rightarrow> builder \<Rightarrow> builder
    \<Rightarrow> InvoiceLine list \<Rightarrow> nat \<Rightarrow> error + builder" where
  "invoice_lines m cur isSupplierVatPayer rootElement b [] index = Inr b"
| "invoice_lines m cur isSupplierVatPayer rootElement b (line # rest) index =
     (case invoice_line m cur isSupplierVatPayer rootElement b line index of
        Inl e \<Rightarrow> Inl e
      | Inr b' \<Rightarrow> invoice_lines m cur isSupplierVatPayer rootElement b' rest (index + 1))"

text \<open>
  \<^verbatim>\<open>buildInvoiceXml\<close>. The result is the document tree that \<^verbatim>\<open>root.end\<close>
  serialises.
\<close>

definition buildInvoiceXml :: "modules \<Rightarrow> InvoiceInput option \<Rightarrow> error + xml" where
  "buildInvoiceXml m input =
     (case validateInvoiceInput input of
        Inl e \<Rightarrow> Inl e
      | Inr _ \<Rightarrow>
     (case input of
        None \<Rightarrow> Inl TypeError
      | Some inp \<Rightarrow>
     (case (supplier inp, customer inp, lines inp, invoiceNumber inp, issueDate inp) of
        (Some suppl, Some cust, Some ls, Some invNum, Some issue) \<Rightarrow>
          (let currency = or_default (currency inp) (DEFAULT_CURRENCY m);
               isSupplierVatPayer = (isVatPayer suppl = Some True);
               invoiceTypeCode =
                 (case invoiceTypeCode inp of
                    None \<Rightarrow> type_code_value COMMERCIAL_INVOICE
                  | Some c \<Rightarrow> type_code_value c);
               issueDate = formatDateForAnaf m issue;
               dueDate =
                 (case dueDate inp of
                    None \<Rightarrow> issueDate
                  | Some d \<Rightarrow> if date_truthy d then formatDateForAnaf m d else issueDate);
               taxGroups = (if length ls > 0 then groupLinesByTax ls isSupplierVatPayer else []);
               totalTaxableAmount = totalTaxableAmount taxGroups;
               totalTaxAmount = totalTaxAmount taxGroups;
               grandTotal = grandTotal taxGroups;
               root =
                 (Element ''Invoice''
                    [(''xmlns'', ''urn:oasis:names:specification:ubl:schema:xsd:Invoice-2''),
                     (''xmlns:cbc'',
                      ''urn:oasis:names:specification:ubl:schema:xsd:CommonBasicComponents-2''),
                     (''xmlns:cac'',
                      ''urn:oasis:names:specification:ubl:schema:xsd:CommonAggregateComponents-2'')]
                    [],
                  []);
               b1 = run root
                 [Ele ''cbc:CustomizationID'' [], Txt (UBL_CUSTOMIZATION_ID m), Up,
                  Ele ''cbc:ID'' [], Txt invNum, Up,
                  Ele ''cbc:IssueDate'' [], Txt issueDate, Up,
                  Ele ''cbc:DueDate'' [], Txt dueDate, Up,
                  Ele ''cbc:InvoiceTypeCode'' [], Txt invoiceTypeCode, Up,
                  Ele ''cbc:DocumentCurrencyCode'' [], Txt currency, Up]
           in case buildPartyXml m (at_ref root b1) ''cac:AccountingSupplierParty'' suppl of
                Inl e \<Rightarrow> Inl e
              | Inr d2 \<Rightarrow>
             (case buildPartyXml m (d2, snd root) ''cac:AccountingCustomerParty'' cust of
                Inl e \<Rightarrow> Inl e
              | Inr d3 \<Rightarrow>
                 (let b3 = (d3, snd root);
                      b4 = (case paymentIban inp of
                              None \<Rightarrow> b3
                            | Some iban \<Rightarrow>
                                if iban = [] then b3
                                else run b3
                                  [Ele ''cac:PaymentMeans'' [],
                                   Ele ''cbc:PaymentMeansCode'' [], Txt ''30'', Up,
                                   Ele ''cac:PayeeFinancialAccount'' [],
                                   Ele ''cbc:ID'' [], Txt iban, Up,
                                   Up, Up]);
                      taxTotalElement = run (at_ref root b4)
                        [Ele ''cac:TaxTotal'' [],
                         Ele ''cbc:TaxAmount'' [(''currencyID'', currency)],
                         Txt (toFixed2 totalTaxAmount), Up];
                      b5 = (if length taxGroups > 0 then
                              foldl (tax_subtotal currency taxTotalElement)
                                taxTotalElement taxGroups
                            else run taxTotalElement
                              [Ele ''cac:TaxSubtotal'' [],
                               Ele ''cbc:TaxableAmount'' [(''currencyID'', currency)],
                               Txt ''0.00'', Up,
                               Ele ''cbc:TaxAmount'' [(''currencyID'', currency)],
                               Txt ''0.00'', Up,
                               Ele ''cac:TaxCategory'' [],
                               Ele ''cbc:ID'' [], Txt ''S'', Up,
                               Ele ''cbc:Percent'' [], Txt ''0.00'', Up,
                               Ele ''cac:TaxScheme'' [],
                               Ele ''cbc:ID'' [], Txt ''VAT'', Up,
                               Up, Up, Up]);
                      b6 = run (at_ref root b5)
                        [Ele ''cac:LegalMonetaryTotal'' [],
                         Ele ''cbc:LineExtensionAmount'' [(''currencyID'', currency)],
                         Txt (toFixed2 totalTaxableAmount), Up,
                         Ele ''cbc:TaxExclusiveAmount'' [(''currencyID'', currency)],
                         Txt (toFixed2 totalTaxableAmount), Up,
                         Ele ''cbc:TaxInclusiveAmount'' [(''currencyID'', currency)],
                         Txt (toFixed2 grandTotal), Up,
                         Ele ''cbc:PayableAmount'' [(''currencyID'', currency)],
                         Txt (toFixed2 grandTotal), Up,
                         Up]
                  in case invoice_lines m currency isSupplierVatPayer root b6 ls 0 of
                       Inl e \<Rightarrow> Inl e
                     | Inr b7 \<Rightarrow> Inr (fst b7))))
      | _ \<Rightarrow> Inl TypeError)))"

section \<open>Notions the statements use\<close>

text \<open>
  Rounding to two decimals, half up, on the rationals, and the same on Number values:
  the exact value is rounded and the nearest Number value taken. The builder's
  own rounding is \<^verbatim>\<open>parseFloat(x.toFixed(2))\<close>.
\<close>

definition round_half_up2 :: "rat \<Rightarrow> rat" where
  "round_half_up2 x = of_int \<lfloor>x * 100 + 1 / 2\<rfloor> / 100"

fun round2 :: "number \<Rightarrow> number" where
  "round2 (Num x) = number_value (round_half_up2 x)"
| "round2 x = x"

text \<open>The text of \<^verbatim>\<open>toFixed(2)\<close> for \<open>n\<close> hundredths.\<close>

definition fixed_text :: "nat \<Rightarrow> string" where
  "fixed_text n =
     (let m = digits n; m' = replicate (3 - length m) (CHR ''0'') @ m
      in take (length m' - 2) m' @ ''.'' @ drop (length m' - 2) m')"

text \<open>
  The line extension as the specification's formula gives it when read in exact
  arithmetic: the unit price rounded, the product rounded.
\<close>

definition exact_line_extension :: "rat \<Rightarrow> rat \<Rightarrow> rat" where
  "exact_line_extension q p = round_half_up2 (round_half_up2 p * q)"

text \<open>
  The tax amount of a line as the specification's formula gives it: the line
  extension times the percent over 100, rounded half up.
\<close>

definition exact_tax_amount :: "rat \<Rightarrow> rat \<Rightarrow> rat" where
  "exact_tax_amount le t = round_half_up2 (le * t / 100)"

text \<open>
  The line of the specification's example, one unit at 4.50 with 19 percent, and
  half a unit at three cents.
\<close>

definition one_at_four_fifty :: InvoiceLine where
  "one_at_four_fifty =
     \<lparr>lineId = None, name = Some ''Item'', description = None,
      quantity = Num 1, unitCode = None, unitPrice = Num (9 / 2), taxPercent = Some (Num 19)\<rparr>"

definition example_line :: InvoiceLine where
  "example_line =
     \<lparr>lineId = None, name = Some ''Test Item'', description = Some ''Test Item'',
      quantity = Num 5, unitCode = None, unitPrice = Num (41 / 2), taxPercent = Some (Num 19)\<rparr>"

definition half_at_three_cents :: InvoiceLine where
  "half_at_three_cents =
     \<lparr>lineId = None, name = Some ''Half'', description = None,
      quantity = Num (1 / 2), unitCode = None,
      unitPrice = Num (1080863910568919 / 36028797018963968), taxPercent = None\<rparr>"

text \<open>A finite, non-negative value below \<open>10 ^ 21\<close>.\<close>

fun fixed_range :: "number \<Rightarrow> bool" where
  "fixed_range (Num x) = (0 \<le> x \<and> x < 10 ^ 21)"
| "fixed_range x = False"

text \<open>A text with exactly two decimal places: digits, a point, two digits.\<close>

definition two_decimals :: "string \<Rightarrow> bool" where
  "two_decimals s =
     (let ip = takeWhile is_digit s; r = dropWhile is_digit s
      in ip \<noteq> [] \<and>
         (case r of
            [] \<Rightarrow> False
          | c # fp \<Rightarrow> c = CHR ''.'' \<and> length fp = 2 \<and> list_all is_digit fp))"

section \<open>Reading a document\<close>

fun elem_name :: "xml \<Rightarrow> string option" where
  "elem_name (Element n a cs) = Some n"
| "elem_name (Text s) = None"

fun children :: "xml \<Rightarrow> xml list" where
  "children (Element n a cs) = cs"
| "children (Text s) = []"

definition children_named :: "string \<Rightarrow> xml \<Rightarrow> xml list" where
  "children_named n x = filter (\<lambda>c. elem_name c = Some n) (children x)"

text \<open>The elements reached from a node along a path of element names.\<close>

fun select :: "string list \<Rightarrow> xml \<Rightarrow> xml list" where
  "select [] x = [x]"
| "select (n # ns) x = concat (map (select ns) (children_named n x))"

fun text_of :: "xml \<Rightarrow> string" where
  "text_of (Text s) = s"
| "text_of (Element n a cs) = concat (map text_of cs)"

definition texts_at :: "string list \<Rightarrow> xml \<Rightarrow> string list" where
  "texts_at ns x = map text_of (select ns x)"

text \<open>All the elements of a name in a tree, in document order.\<close>

fun elements_named :: "string \<Rightarrow> xml \<Rightarrow> xml list" where
  "elements_named n (Text s) = []"
| "elements_named n (Element m a cs) =
     (if m = n then [Element m a cs] else []) @ concat (map (elements_named n) cs)"

section \<open>A builder as a focus in the tree\<close>

text \<open>
  While a chain runs, the document is the focused element inside its open
  ancestors: a stack of frames from the parent outwards, each with its name, its
  attributes and the children it had before the one that is open. The builder
  operations act on this view in one step each.
\<close>

type_synonym frame = "string \<times> (string \<times> string) list \<times> xml list"

fun plug :: "frame list \<Rightarrow> xml \<Rightarrow> xml" where
  "plug [] t = t"
| "plug ((n, a, ls) # st) t = plug st (Element n a (ls @ [t]))"

definition path_of :: "frame list \<Rightarrow> nat list" where
  "path_of st = rev (map (\<lambda>(n, a, ls). length ls) st)"

definition focus :: "frame list \<Rightarrow> xml \<Rightarrow> builder" where
  "focus st t = (plug st t, path_of st)"

section \<open>The parts of the document as terms\<close>

definition party_xml :: "modules \<Rightarrow> string \<Rightarrow> Party \<Rightarrow> Address \<Rightarrow> string \<Rightarrow> string \<Rightarrow> xml" where
  "party_xml m tag party addr regName compId =
     Element tag []
       [Element ''cac:Party'' []
          ([Element ''cac:PostalAddress'' []
              [Element ''cbc:StreetName'' [] [Text (or_empty (street addr))],
               Element ''cbc:CityName'' []
                 [Text (or_empty
                    (if is_bucharest m (sanitize_county m (county addr))
                     then sanitize_bucharest_sector m (city addr) else city addr))],
               Element ''cbc:PostalZone'' [] [Text (or_empty (postalZone addr))],
               Element ''cbc:CountrySubentity'' []
                 [Text (or_empty (sanitize_county m (county addr)))],
               Element ''cac:Country'' []
                 [Element ''cbc:IdentificationCode'' []
                    [Text (or_default (countryCode addr) (DEFAULT_COUNTRY_CODE m))]]]] @
           (if isVatPayer party = Some True then
              [Element ''cac:PartyTaxScheme'' []
                 [Element ''cbc:CompanyID'' [] [Text (normalizeVatNumber m compId)],
                  Element ''cac:TaxScheme'' [] [Element ''cbc:ID'' [] [Text ''VAT'']]]]
            else []) @
           [Element ''cac:PartyLegalEntity'' []
              [Element ''cbc:RegistrationName'' [] [Text regName],
               Element ''cbc:CompanyID'' [] [Text compId]]])]"

definition tax_subtotal_xml :: "string \<Rightarrow> TaxGroup \<Rightarrow> xml" where
  "tax_subtotal_xml cur g =
     Element ''cac:TaxSubtotal'' []
       [Element ''cbc:TaxableAmount'' [(''currencyID'', cur)]
          [Text (toFixed2 (TaxGroup.taxableAmount g))],
        Element ''cbc:TaxAmount'' [(''currencyID'', cur)]
          [Text (toFixed2 (TaxGroup.taxAmount g))],
        Element ''cac:TaxCategory'' []
          ([Element ''cbc:ID'' [] [Text (categoryId g)],
            Element ''cbc:Percent'' [] [Text (toFixed2 (percent g))]] @
           (case exemptionReasonCode g of
              None \<Rightarrow> []
            | Some code \<Rightarrow>
                if code = [] then []
                else [Element ''cbc:TaxExemptionReasonCode'' [] [Text code]]) @
           [Element ''cac:TaxScheme'' [] [Element ''cbc:ID'' [] [Text ''VAT'']]])]"

definition default_subtotal_xml :: "string \<Rightarrow> xml" where
  "default_subtotal_xml cur =
     Element ''cac:TaxSubtotal'' []
       [Element ''cbc:TaxableAmount'' [(''currencyID'', cur)] [Text ''0.00''],
        Element ''cbc:TaxAmount'' [(''currencyID'', cur)] [Text ''0.00''],
        Element ''cac:TaxCategory'' []
          [Element ''cbc:ID'' [] [Text ''S''],
           Element ''cbc:Percent'' [] [Text ''0.00''],
           Element ''cac:TaxScheme'' [] [Element ''cbc:ID'' [] [Text ''VAT'']]]]"

definition tax_total_xml :: "string \<Rightarrow> TaxGroup list \<Rightarrow> xml" where
  "tax_total_xml cur taxGroups =
     Element ''cac:TaxTotal'' []
       (Element ''cbc:TaxAmount'' [(''currencyID'', cur)]
          [Text (toFixed2 (totalTaxAmount taxGroups))] #
        (if length taxGroups > 0 then map (tax_subtotal_xml cur) taxGroups
         else [default_subtotal_xml cur]))"

definition legal_monetary_total_xml :: "string \<Rightarrow> TaxGroup list \<Rightarrow> xml" where
  "legal_monetary_total_xml cur taxGroups =
     Element ''cac:LegalMonetaryTotal'' []
       [Element ''cbc:LineExtensionAmount'' [(''currencyID'', cur)]
          [Text (toFixed2 (totalTaxableAmount taxGroups))],
        Element ''cbc:TaxExclusiveAmount'' [(''currencyID'', cur)]
          [Text (toFixed2 (totalTaxableAmount taxGroups))],
        Element ''cbc:TaxInclusiveAmount'' [(''currencyID'', cur)]
          [Text (toFixed2 (grandTotal taxGroups))],
        Element ''cbc:PayableAmount'' [(''currencyID'', cur)]
          [Text (toFixed2 (grandTotal taxGroups))]]"

definition line_id_text :: "InvoiceLine \<Rightarrow> nat \<Rightarrow> string" where
  "line_id_text line index =
     (case lineId line of
        None \<Rightarrow> digits (index + 1)
      | Some (IdString s) \<Rightarrow> if s = [] then digits (index + 1) else s
      | Some (IdNumber n) \<Rightarrow> number_to_string n)"

definition invoice_line_xml :: "modules \<Rightarrow> string \<Rightarrow> bool \<Rightarrow> InvoiceLine \<Rightarrow> nat \<Rightarrow> xml" where
  "invoice_line_xml m cur isSupplierVatPayer line index =
     Element ''cac:InvoiceLine'' []
       [Element ''cbc:ID'' [] [Text (line_id_text line index)],
        Element ''cbc:InvoicedQuantity''
          [(''unitCode'', or_default (unitCode line) (DEFAULT_UNIT_CODE m))]
          [Text (number_to_string (quantity line))],
        Element ''cbc:LineExtensionAmount'' [(''currencyID'', cur)]
          [Text (toFixed2 (calculateLineExtension line))],
        Element ''cac:Item'' []
          ([Element ''cbc:Name'' [] [Text (or_empty (name line))]] @
           (case description line of
              None \<Rightarrow> []
            | Some d \<Rightarrow> if d = [] then [] else [Element ''cbc:Description'' [] [Text d]]) @
           [Element ''cac:ClassifiedTaxCategory'' []
              [Element ''cbc:ID'' []
                 [Text (if \<not> isSupplierVatPayer then ''O''
                        else if js_gt (taxPercent_or_0 line) (Num 0) then ''S''
                        else ''Z'')],
               Element ''cbc:Percent'' [] [Text (toFixed2 (taxPercent_or_0 line))],
               Element ''cac:TaxScheme'' [] [Element ''cbc:ID'' [] [Text ''VAT'']]]]),
        Element ''cac:Price'' []
          [Element ''cbc:PriceAmount'' [(''currencyID'', cur)]
             [Text (toFixed2 (parseFloat (toFixed2 (unitPrice line))))]]]"

fun invoice_lines_xml :: "modules \<Rightarrow> string \<Rightarrow> bool \<Rightarrow> InvoiceLine list \<Rightarrow> nat \<Rightarrow> xml list" where
  "invoice_lines_xml m cur isSupplierVatPayer [] index = []"
| "invoice_lines_xml m cur isSupplierVatPayer (line # rest) index =
     invoice_line_xml m cur isSupplierVatPayer line index #
     invoice_lines_xml m cur isSupplierVatPayer rest (index + 1)"

definition invoice_attributes :: "(string \<times> string) list" where
  "invoice_attributes =
     [(''xmlns'', ''urn:oasis:names:specification:ubl:schema:xsd:Invoice-2''),
      (''xmlns:cbc'', ''urn:oasis:names:specification:ubl:schema:xsd:CommonBasicComponents-2''),
      (''xmlns:cac'',
       ''urn:oasis:names:specification:ubl:schema:xsd:CommonAggregateComponents-2'')]"

text \<open>
  The document of an input whose supplier, customer, lines, number and issue date
  are present, with the addresses and names of the two parties.
\<close>

definition invoice_currency :: "modules \<Rightarrow> InvoiceInput \<Rightarrow> string" where
  "invoice_currency m inp = or_default (currency inp) (DEFAULT_CURRENCY m)"

definition invoice_groups :: "Party \<Rightarrow> InvoiceLine list \<Rightarrow> TaxGroup list" where
  "invoice_groups suppl ls =
     (if length ls > 0 then groupLinesByTax ls (isVatPayer suppl = Some True) else [])"

definition invoice_header_xml :: "modules \<Rightarrow> InvoiceInput \<Rightarrow> string \<Rightarrow> date_value \<Rightarrow> xml list" where
  "invoice_header_xml m inp invNum issue =
     [Element ''cbc:CustomizationID'' [] [Text (UBL_CUSTOMIZATION_ID m)],
      Element ''cbc:ID'' [] [Text invNum],
      Element ''cbc:IssueDate'' [] [Text (formatDateForAnaf m issue)],
      Element ''cbc:DueDate'' []
        [Text (case dueDate inp of
                 None \<Rightarrow> formatDateForAnaf m issue
               | Some d \<Rightarrow>
                   if date_truthy d then formatDateForAnaf m d
                   else formatDateForAnaf m issue)],
      Element ''cbc:InvoiceTypeCode'' []
        [Text (case invoiceTypeCode inp of
                 None \<Rightarrow> type_code_value COMMERCIAL_INVOICE
               | Some c \<Rightarrow> type_code_value c)],
      Element ''cbc:DocumentCurrencyCode'' [] [Text (invoice_currency m inp)]]"

definition payment_means_xml :: "InvoiceInput \<Rightarrow> xml list" where
  "payment_means_xml inp =
     (case paymentIban inp of
        None \<Rightarrow> []
      | Some iban \<Rightarrow>
          if iban = [] then []
          else [Element ''cac:PaymentMeans'' []
                  [Element ''cbc:PaymentMeansCode'' [] [Text ''30''],
                   Element ''cac:PayeeFinancialAccount'' []
                     [Element ''cbc:ID'' [] [Text iban]]]])"

definition invoice_document :: "modules \<Rightarrow> InvoiceInput \<Rightarrow> Party \<Rightarrow> Party \<Rightarrow> InvoiceLine list
    \<Rightarrow> string \<Rightarrow> date_value \<Rightarrow> Address \<Rightarrow> string \<Rightarrow> string \<Rightarrow> Address \<Rightarrow> string \<Rightarrow> string
    \<Rightarrow> xml" where
  "invoice_document m inp suppl cust ls invNum issue sa sn sc ca cn cc =
     Element ''Invoice'' invoice_attributes
       (invoice_header_xml m inp invNum issue @
        [party_xml m ''cac:AccountingSupplierParty'' suppl sa sn sc,
         party_xml m ''cac:AccountingCustomerParty'' cust ca cn cc] @
        payment_means_xml inp @
        [tax_total_xml (invoice_currency m inp) (invoice_groups suppl ls),
         legal_monetary_total_xml (invoice_currency m inp) (invoice_groups suppl ls)] @
        invoice_lines_xml m (invoice_currency m inp) (isVatPayer suppl = Some True) ls 0)"

section \<open>The violations of an input, in the order of the specification\<close>

text \<open>
  Every rule of the validation list that an input breaks, as the message that
  names it: the invoice number, the issue date, the supplier (its presence, or else
  its registration name, company id and address with street, city and postal
  zone), the customer likewise, the lines array, and then each line in sequence
  with its number counted from 1 (name, quantity, unit price, tax percent).
\<close>

definition address_violations :: "Address \<Rightarrow> string \<Rightarrow> string list" where
  "address_violations a role =
     (if blank (street a) then [role @ '' street address is required''] else []) @
     (if blank (city a) then [role @ '' city is required''] else []) @
     (if blank (postalZone a) then [role @ '' postal zone is required''] else [])"

definition party_violations :: "Party \<Rightarrow> string \<Rightarrow> string list" where
  "party_violations p role =
     (if blank (registrationName p) then [role @ '' registration name is required''] else []) @
     (if blank (companyId p) then [role @ '' company ID is required''] else []) @
     (case address p of
        None \<Rightarrow> [role @ '' address is required'']
      | Some a \<Rightarrow> address_violations a role)"

definition line_violations :: "InvoiceLine \<Rightarrow> nat \<Rightarrow> string list" where
  "line_violations l k =
     (if blank (name l) then [''Line '' @ digits k @ '': Name is required''] else []) @
     (if js_le (quantity l) (Num 0)
      then [''Line '' @ digits k @ '': Quantity must be a positive number''] else []) @
     (if js_lt (unitPrice l) (Num 0)
      then [''Line '' @ digits k @ '': Unit price must be a non-negative number''] else []) @
     (case taxPercent l of
        None \<Rightarrow> []
      | Some t \<Rightarrow>
          if js_lt t (Num 0) \<or> js_gt t (Num 100)
          then [''Line '' @ digits k @ '': Tax percent must be between 0 and 100''] else [])"

fun lines_violations :: "InvoiceLine list \<Rightarrow> nat \<Rightarrow> string list" where
  "lines_violations [] k = []"
| "lines_violations (l # ls) k = line_violations l k @ lines_violations ls (k + 1)"

definition violations :: "InvoiceInput \<Rightarrow> string list" where
  "violations inp =
     (if blank (invoiceNumber inp) then [''Invoice number is required''] else []) @
     (case issueDate inp of
        None \<Rightarrow> [''Issue date is required'']
      | Some d \<Rightarrow> if date_truthy d then [] else [''Issue date is required'']) @
     (case supplier inp of
        None \<Rightarrow> [''Supplier information is required'']
      | Some s \<Rightarrow> party_violations s ''Supplier'') @
     (case customer inp of
        None \<Rightarrow> [''Customer information is required'']
      | Some c \<Rightarrow> party_violations c ''Customer'') @
     (case lines inp of
        None \<Rightarrow> [''Invoice lines array is required'']
      | Some ls \<Rightarrow> lines_violations ls 1)"

text \<open>The error for the first of a list of violations, if there is one.\<close>

definition first_violation :: "string list \<Rightarrow> error + unit" where
  "first_violation vs = (case vs of [] \<Rightarrow> Inr () | v # _ \<Rightarrow> Inl (AnafValidationError v))"

text \<open>A plain input, and one whose customer has a blank street and whose second line is bad.\<close>

definition plain_address :: Address where
  "plain_address =
     \<lparr>street = Some ''Str. Exemplu 1'', city = Some ''Cluj-Napoca'', postalZone = Some ''400001'',
      county = Some ''Cluj'', countryCode = None\<rparr>"

definition plain_party :: Party where
  "plain_party =
     \<lparr>registrationName = Some ''Furnizor SRL'', companyId = Some ''RO12345678'',
      isVatPayer = Some True, address = Some plain_address\<rparr>"

definition plain_input :: "InvoiceLine list \<Rightarrow> InvoiceInput" where
  "plain_input ls =
     \<lparr>invoiceTypeCode = None, invoiceNumber = Some ''INV-2024-001'',
      issueDate = Some (DateString ''2024-01-15''), dueDate = None, currency = None,
      supplier = Some plain_party, customer = Some plain_party, lines = Some ls,
      paymentIban = None\<rparr>"

definition faulty_input :: InvoiceInput where
  "faulty_input =
     (plain_input [example_line, example_line\<lparr>quantity := Num 0, unitPrice := Num (- 1)\<rparr>])
       \<lparr>customer := Some (plain_party\<lparr>address := Some (plain_address\<lparr>street := Some '' ''\<rparr>)\<rparr>)\<rparr>"

text \<open>Stand-ins for the imported modules, for evaluating the builder on an input.\<close>

definition plain_modules :: modules where
  "plain_modules =
     \<lparr>UBL_CUSTOMIZATION_ID = ''CIUS-RO'', DEFAULT_CURRENCY = ''RON'',
      DEFAULT_COUNTRY_CODE = ''RO'', DEFAULT_UNIT_CODE = ''EA'',
      formatDateForAnaf = (\<lambda>d. case d of DateString s \<Rightarrow> s | DateObject t \<Rightarrow> []),
      normalizeVatNumber = (\<lambda>s. s),
      sanitize_county = (\<lambda>c. None),
      is_bucharest = (\<lambda>c. False),
      sanitize_bucharest_sector = (\<lambda>c. None)\<rparr>"

text \<open>
  Stand-ins that know one county and one sector, and a party in the capital.
\<close>

definition capital_modules :: modules where
  "capital_modules =
     plain_modules
       \<lparr>normalizeVatNumber := (\<lambda>s. ''RO'' @ s),
        sanitize_county := (\<lambda>c. if c = Some ''Bucuresti'' then Some ''RO-B'' else None),
        is_bucharest := (\<lambda>c. c = Some ''RO-B''),
        sanitize_bucharest_sector := (\<lambda>c. if c = Some ''Sector 3'' then Some ''SECTOR3'' else None)\<rparr>"

definition capital_party :: Party where
  "capital_party =
     \<lparr>registrationName = Some ''Client SRL'', companyId = Some ''87654321'',
      isVatPayer = Some True,
      address = Some \<lparr>street = Some ''Str. Client 2'', city = Some ''Sector 3'',
        postalZone = Some ''030001'', county = Some ''Bucuresti'', countryCode = None\<rparr>\<rparr>"

text \<open>The texts at a path of element names in the document built, none on an error.\<close>

definition result_texts :: "string list \<Rightarrow> error + xml \<Rightarrow> string list" where
  "result_texts ns r = (case r of Inl e \<Rightarrow> [] | Inr doc \<Rightarrow> texts_at ns doc)"

text \<open>One line of \<open>10 ^ 21\<close> units at a price of 1.\<close>

definition huge_line :: InvoiceLine where
  "huge_line =
     \<lparr>lineId = None, name = Some ''Sand'', description = None,
      quantity = Num (10 ^ 21), unitCode = None, unitPrice = Num 1, taxPercent = None\<rparr>"

section \<open>Tax groups as the specification describes them\<close>

text \<open>
  The selection of the tax category of a line in the order of the specification:
  category O with exemption reason code VATEX-EU-O when the supplier is not a VAT
  payer, whatever the percent; otherwise S for a percent above zero; otherwise Z.
\<close>

definition spec_tax_category :: "bool \<Rightarrow> number \<Rightarrow> string \<times> string option" where
  "spec_tax_category isSupplierVatPayer p =
     (if \<not> isSupplierVatPayer then (''O'', Some ''VATEX-EU-O'')
      else if js_gt p (Num 0) then (''S'', None)
      else (''Z'', None))"

text \<open>The (category, percent) pair of a line, and the rounded tax amount of a line.\<close>

definition line_key :: "bool \<Rightarrow> InvoiceLine \<Rightarrow> tax_key" where
  "line_key isSupplierVatPayer line =
     (fst (spec_tax_category isSupplierVatPayer (taxPercent_or_0 line)), taxPercent_or_0 line)"

definition line_tax_amount :: "InvoiceLine \<Rightarrow> number" where
  "line_tax_amount line =
     parseFloat (toFixed2 (js_mul (calculateLineExtension line)
       (js_div (taxPercent_or_0 line) (Num 100))))"

text \<open>The distinct elements of a list in the order of their first occurrences.\<close>

definition first_seen :: "'a list \<Rightarrow> 'a list" where
  "first_seen xs = rev (remdups (rev xs))"

text \<open>
  The sum of a non-empty list of amounts from its first element on, rounded to two
  decimals after each addition.
\<close>

fun rounded_sum :: "number list \<Rightarrow> number" where
  "rounded_sum [] = Num 0"
| "rounded_sum (x # xs) = foldl (\<lambda>acc v. parseFloat (toFixed2 (js_add acc v))) x xs"

text \<open>The group of a pair: the amounts are accumulated over the lines of that pair.\<close>

definition group_of :: "bool \<Rightarrow> InvoiceLine list \<Rightarrow> tax_key \<Rightarrow> TaxGroup" where
  "group_of isSupplierVatPayer ls k =
     \<lparr>categoryId = fst k, percent = snd k,
      taxableAmount =
        rounded_sum (map calculateLineExtension
          (filter (\<lambda>l. line_key isSupplierVatPayer l = k) ls)),
      taxAmount =
        rounded_sum (map line_tax_amount
          (filter (\<lambda>l. line_key isSupplierVatPayer l = k) ls)),
      exemptionReasonCode = snd (spec_tax_category isSupplierVatPayer (snd k))\<rparr>"

text \<open>Three lines: two at 19 percent around one at 9 percent.\<close>

definition three_lines :: "InvoiceLine list" where
  "three_lines =
     [example_line,
      example_line\<lparr>quantity := Num 2, unitPrice := Num 10, taxPercent := Some (Num 9)\<rparr>,
      example_line\<lparr>quantity := Num 1, unitPrice := Num (1 / 4)\<rparr>]"

text \<open>The lines of the specification's second example: 100 at 19 percent and 100 at 9.\<close>

definition two_rates :: "InvoiceLine list" where
  "two_rates =
     [\<lparr>lineId = None, name = Some ''Item with 19% VAT'',
       description = Some ''Item with 19% VAT'', quantity = Num 1, unitCode = None,
       unitPrice = Num 100, taxPercent = Some (Num 19)\<rparr>,
      \<lparr>lineId = None, name = Some ''Item with 9% VAT'',
       description = Some ''Item with 9% VAT'', quantity = Num 1, unitCode = None,
       unitPrice = Num 100, taxPercent = Some (Num 9)\<rparr>]"


section \<open>The address normalizer\<close>

text \<open>
  The module \<^verbatim>\<open>ubl/address-sanitizer\<close> is not among the sources; only its tests and
  its callers are. The functions of this section are written from the
  specification of the address normalizer. Strings are UTF-8, so a letter with a
  diacritic is two bytes.
\<close>

text \<open>
  Modelled from the spec: lower-casing, of the ASCII letters (\<^verbatim>\<open>address-sanitizer\<close> is
  missing).
\<close>

definition lower_table :: "(char \<times> char) list" where
  "lower_table =
     [(CHR ''A'', CHR ''a''), (CHR ''B'', CHR ''b''), (CHR ''C'', CHR ''c''),
      (CHR ''D'', CHR ''d''), (CHR ''E'', CHR ''e''), (CHR ''F'', CHR ''f''),
      (CHR ''G'', CHR ''g''), (CHR ''H'', CHR ''h''), (CHR ''I'', CHR ''i''),
      (CHR ''J'', CHR ''j''), (CHR ''K'', CHR ''k''), (CHR ''L'', CHR ''l''),
      (CHR ''M'', CHR ''m''), (CHR ''N'', CHR ''n''), (CHR ''O'', CHR ''o''),
      (CHR ''P'', CHR ''p''), (CHR ''Q'', CHR ''q''), (CHR ''R'', CHR ''r''),
      (CHR ''S'', CHR ''s''), (CHR ''T'', CHR ''t''), (CHR ''U'', CHR ''u''),
      (CHR ''V'', CHR ''v''), (CHR ''W'', CHR ''w''), (CHR ''X'', CHR ''x''),
      (CHR ''Y'', CHR ''y''), (CHR ''Z'', CHR ''z'')]"

definition lower_char :: "char \<Rightarrow> char" where
  "lower_char c = (case map_of lower_table c of None \<Rightarrow> c | Some l \<Rightarrow> l)"

text \<open>
  Modelled from the spec: stripping diacritics. The Romanian letters with a comma
  below, a cedilla, a breve or a circumflex, in either case, become their base
  letters in lower case (\<^verbatim>\<open>address-sanitizer\<close> is missing).
\<close>

definition diacritic_table :: "((char \<times> char) \<times> char) list" where
  "diacritic_table =
     [((CHR 0xC8, CHR 0x99), CHR ''s''), ((CHR 0xC8, CHR 0x98), CHR ''s''),
      ((CHR 0xC5, CHR 0x9F), CHR ''s''), ((CHR 0xC5, CHR 0x9E), CHR ''s''),
      ((CHR 0xC8, CHR 0x9B), CHR ''t''), ((CHR 0xC8, CHR 0x9A), CHR ''t''),
      ((CHR 0xC5, CHR 0xA3), CHR ''t''), ((CHR 0xC5, CHR 0xA2), CHR ''t''),
      ((CHR 0xC4, CHR 0x83), CHR ''a''), ((CHR 0xC4, CHR 0x82), CHR ''a''),
      ((CHR 0xC3, CHR 0xA2), CHR ''a''), ((CHR 0xC3, CHR 0x82), CHR ''a''),
      ((CHR 0xC3, CHR 0xAE), CHR ''i''), ((CHR 0xC3, CHR 0x8E), CHR ''i'')]"

fun fold_letters :: "string \<Rightarrow> string" where
  "fold_letters [] = []"
| "fold_letters [c] = [lower_char c]"
| "fold_letters (c # d # r) =
     (case map_of diacritic_table (c, d) of
        Some b \<Rightarrow> b # fold_letters r
      | None \<Rightarrow> lower_char c # fold_letters (d # r))"

text \<open>
  Modelled from the spec: collapsing separators. A dash, an underscore, a point, a
  comma and white space separate words, and the words are joined by single spaces
  (\<^verbatim>\<open>address-sanitizer\<close> is missing).
\<close>

definition separator :: "char \<Rightarrow> bool" where
  "separator c = (c \<in> set ''-_.,'' \<or> ws1 c)"

fun split_words :: "string \<Rightarrow> string \<Rightarrow> string list" where
  "split_words w [] = (if w = [] then [] else [rev w])"
| "split_words w (c # r) =
     (if separator c then (if w = [] then [] else [rev w]) @ split_words [] r
      else split_words (c # w) r)"

fun join_words :: "string list \<Rightarrow> string" where
  "join_words [] = []"
| "join_words [w] = w"
| "join_words (w # v # r) = w @ '' '' @ join_words (v # r)"

text \<open>
  Modelled from the spec: normalization is trimming, lower-casing, stripping
  diacritics and collapsing separators; its result is kept as the list of words
  (\<^verbatim>\<open>address-sanitizer\<close> is missing).
\<close>

definition normalized_words :: "string \<Rightarrow> string list" where
  "normalized_words s = split_words [] (fold_letters (trim s))"

definition normalizeInput :: "string \<Rightarrow> string" where
  "normalizeInput s = join_words (normalized_words s)"

text \<open>
  Modelled from the spec: the table from the canonical name of each of the 41
  counties, and the alternate spellings that the specification and the tests
  name, to its code, with the aliases of Bucharest (\<^verbatim>\<open>address-sanitizer\<close> is missing).
\<close>

definition county_table :: "(string \<times> string) list" where
  "county_table =
     [(''alba'', ''RO-AB''), (''arad'', ''RO-AR''), (''arges'', ''RO-AG''),
      (''bacau'', ''RO-BC''), (''bihor'', ''RO-BH''), (''bistrita nasaud'', ''RO-BN''),
      (''botosani'', ''RO-BT''), (''brasov'', ''RO-BV''), (''braila'', ''RO-BR''),
      (''buzau'', ''RO-BZ''), (''caras severin'', ''RO-CS''), (''calarasi'', ''RO-CL''),
      (''cluj'', ''RO-CJ''), (''constanta'', ''RO-CT''), (''covasna'', ''RO-CV''),
      (''dambovita'', ''RO-DB''), (''dimbovita'', ''RO-DB''), (''dolj'', ''RO-DJ''),
      (''galati'', ''RO-GL''), (''giurgiu'', ''RO-GR''), (''gorj'', ''RO-GJ''),
      (''harghita'', ''RO-HR''), (''hunedoara'', ''RO-HD''), (''ialomita'', ''RO-IL''),
      (''iasi'', ''RO-IS''), (''ilfov'', ''RO-IF''), (''maramures'', ''RO-MM''),
      (''mehedinti'', ''RO-MH''), (''mures'', ''RO-MS''), (''neamt'', ''RO-NT''),
      (''olt'', ''RO-OT''), (''prahova'', ''RO-PH''), (''satu mare'', ''RO-SM''),
      (''salaj'', ''RO-SJ''), (''sibiu'', ''RO-SB''), (''suceava'', ''RO-SV''),
      (''teleorman'', ''RO-TR''), (''timis'', ''RO-TM''), (''tulcea'', ''RO-TL''),
      (''vaslui'', ''RO-VS''), (''valcea'', ''RO-VL''), (''vilcea'', ''RO-VL''),
      (''vrancea'', ''RO-VN''),
      (''bucuresti'', ''RO-B''), (''buc'', ''RO-B'')]"

definition county_lookup :: "string list \<Rightarrow> string option" where
  "county_lookup ws = map_of county_table (join_words ws)"

text \<open>
  Modelled from the spec: the administrative qualifier words, normalized, with the
  abbreviated forms of the first two, and their stripping from the two ends of the
  words (\<^verbatim>\<open>address-sanitizer\<close> is missing).
\<close>

definition qualifier :: "string \<Rightarrow> bool" where
  "qualifier w = (w \<in> set [''judetul'', ''jud'', ''municipiul'', ''mun'', ''orasul'', ''comuna''])"

definition strip_qualifiers :: "string list \<Rightarrow> string list" where
  "strip_qualifiers ws = rev (dropWhile qualifier (rev (dropWhile qualifier ws)))"

text \<open>
  Modelled from the spec: \<^verbatim>\<open>sanitizeCounty\<close>. Nothing for an absent, empty or
  white-space input; otherwise the code of the normalized input, or else the code
  of the normalized input without its qualifier words, or else nothing
  (\<^verbatim>\<open>address-sanitizer\<close> is missing).
\<close>

definition sanitizeCounty :: "string option \<Rightarrow> string option" where
  "sanitizeCounty input =
     (case input of
        None \<Rightarrow> None
      | Some s \<Rightarrow>
          if trim s = [] then None
          else (case county_lookup (normalized_words s) of
                  Some code \<Rightarrow> Some code
                | None \<Rightarrow> county_lookup (strip_qualifiers (normalized_words s))))"

text \<open>
  Modelled from the spec: the sector tokens. A token is one of the prefixes
  followed, in the same word or in the next, by a number of one or two digits
  (\<^verbatim>\<open>address-sanitizer\<close> is missing).
\<close>

definition sector_prefixes :: "string list" where
  "sector_prefixes = [''sectorul'', ''sector'', ''sect'', ''s'']"

definition number_word :: "string \<Rightarrow> nat option" where
  "number_word w =
     (if (length w = 1 \<or> length w = 2) \<and> list_all is_digit w then Some (digits_value w)
      else None)"

definition attached_number :: "string \<Rightarrow> nat option" where
  "attached_number w =
     (case filter (\<lambda>p. take (length p) w = p \<and> number_word (drop (length p) w) \<noteq> None)
             sector_prefixes of
        [] \<Rightarrow> None
      | p # _ \<Rightarrow> number_word (drop (length p) w))"

fun sector_numbers :: "string list \<Rightarrow> nat list" where
  "sector_numbers [] = []"
| "sector_numbers [w] = (case attached_number w of Some n \<Rightarrow> [n] | None \<Rightarrow> [])"
| "sector_numbers (w # v # r) =
     (case attached_number w of
        Some n \<Rightarrow> n # sector_numbers (v # r)
      | None \<Rightarrow>
          if w \<in> set sector_prefixes then
            (case number_word v of
               Some n \<Rightarrow> n # sector_numbers r
             | None \<Rightarrow> sector_numbers (v # r))
          else sector_numbers (v # r))"

text \<open>
  Modelled from the spec: \<^verbatim>\<open>sanitizeBucharestSector\<close>. Nothing for an absent, empty
  or white-space input; otherwise the first sector token of the normalized input
  whose number is from 1 to 6, written without padding, or else nothing
  (\<^verbatim>\<open>address-sanitizer\<close> is missing).
\<close>

definition sanitizeBucharestSector :: "string option \<Rightarrow> string option" where
  "sanitizeBucharestSector input =
     (case input of
        None \<Rightarrow> None
      | Some s \<Rightarrow>
          if trim s = [] then None
          else (case filter (\<lambda>n. 1 \<le> n \<and> n \<le> 6) (sector_numbers (normalized_words s)) of
                  [] \<Rightarrow> None
                | n # _ \<Rightarrow> Some (''SECTOR'' @ digits n)))"

text \<open>The six sector codes, and some inputs.\<close>

definition sector_codes :: "string list" where
  "sector_codes = [''SECTOR1'', ''SECTOR2'', ''SECTOR3'', ''SECTOR4'', ''SECTOR5'', ''SECTOR6'']"

definition Iasi_with_comma_below :: string where
  "Iasi_with_comma_below = ''Ia'' @ [CHR 0xC8, CHR 0x99] @ ''i''"


section \<open>Evaluating the Number operations on literals\<close>

text \<open>
  The recursive functions are unfolded on numerals only, so that the simplifier
  computes with them on closed terms and leaves open ones alone.
\<close>

named_theorems js_eval

lemma floor_rat_numeral [js_eval]:
  "\<lfloor>numeral a / numeral b :: rat\<rfloor> = numeral a div numeral b"
  using floor_divide_of_int_eq [of "numeral a" "numeral b", where ?'a = rat] by simp

lemma floor_rat_one_numeral [js_eval]:
  "\<lfloor>1 / numeral b :: rat\<rfloor> = 1 div numeral b"
  using floor_divide_of_int_eq [of 1 "numeral b", where ?'a = rat] by simp

lemma bitlen_numeral [js_eval]:
  "bitlen (numeral k) = bitlen (numeral k div 2) + 1"
  by (subst compute_bitlen) simp

lemma bitlen_one [js_eval]: "bitlen 1 = 1"
  by (subst compute_bitlen) simp

lemma digits_numeral [js_eval]:
  "digits (numeral k) =
     (if (numeral k :: nat) < 10 then [digit_char (numeral k)]
      else digits (numeral k div 10) @ [digit_char (numeral k mod 10)])"
  by (rule digits.simps)

lemma digits_0 [js_eval]: "digits 0 = ''0''"
  by (simp add: digits.simps digit_char_def)

lemma digits_Suc [js_eval]:
  "digits (Suc n) =
     (if Suc n < 10 then [digit_char (Suc n)]
      else digits (Suc n div 10) @ [digit_char (Suc n mod 10)])"
  by (rule digits.simps)

lemma shortest_digits_numeral [js_eval]:
  "shortest_digits a n (numeral f) k =
     (case digits_at a n k of
        Some s \<Rightarrow> (s, k)
      | None \<Rightarrow> shortest_digits a n (pred_numeral f) (Suc k))"
  by (simp add: numeral_eq_Suc)

lemmas [js_eval] =
  toFixed2.simps number_value_def floor_log2_def round_half_even_def pow2_def pow10_def
  digit_char_def is_digit_def digit_val_def digits_value_def dec_exp_def digits_at_def
  format_digits_def positive_to_string_def sign_str_def exponent_part_def parseFloat_def
  ws1_def ws2_def ws3_def trim_def truthy_def js_gt_def js_le_def Let_def

section \<open>Rounding through the decimal text\<close>

text \<open>
  \<^verbatim>\<open>parseFloat(x.toFixed(2))\<close> is \<^const>\<open>round2\<close> on a non-negative value in the
  fixed-notation range: the digits written are read back as the same hundredths.
\<close>

declare toFixed2.simps [simp del]

lemma digit_cases: "d < 10 \<Longrightarrow> d \<in> {0, 1, 2, 3, 4, 5, 6, 7, 8, 9::nat}"
  by auto

lemma is_digit_digit_char: "d < 10 \<Longrightarrow> is_digit (digit_char d)"
  using digit_cases [of d] by (auto simp: is_digit_def digit_char_def)

lemma digit_val_digit_char: "d < 10 \<Longrightarrow> digit_val (digit_char d) = d"
  using digit_cases [of d] by (auto simp: digit_val_def digit_char_def)

lemma digits_all_digit: "c \<in> set (digits n) \<Longrightarrow> is_digit c"
proof (induction n arbitrary: c rule: digits.induct)
  case (1 n)
  show ?case
  proof (cases "n < 10")
    case True
    with "1.prems" show ?thesis
      by (subst (asm) digits.simps) (simp add: is_digit_digit_char)
  next
    case False
    with "1.prems" have "c \<in> set (digits (n div 10)) \<or> c = digit_char (n mod 10)"
      by (subst (asm) digits.simps) auto
    with False "1.IH" show ?thesis
      by (auto simp: is_digit_digit_char)
  qed
qed

lemma digits_nonempty: "digits n \<noteq> []"
  by (subst digits.simps) simp

lemma digits_value_snoc: "digits_value (ds @ [c]) = 10 * digits_value ds + digit_val c"
  by (simp add: digits_value_def)

lemma digits_value_digits: "digits_value (digits n) = n"
proof (induction n rule: digits.induct)
  case (1 n)
  show ?case
  proof (cases "n < 10")
    case True
    then show ?thesis
      by (subst digits.simps) (simp add: digits_value_def digit_val_digit_char)
  next
    case False
    with "1.IH" show ?thesis
      by (subst digits.simps) (simp add: digits_value_snoc digit_val_digit_char)
  qed
qed

lemma digits_value_zeros: "digits_value (replicate k (CHR ''0'') @ ds) = digits_value ds"
proof -
  have "foldl (\<lambda>a c. 10 * a + digit_val c) 0 (replicate k (CHR ''0'')) = 0"
    by (induction k) (simp_all add: digit_val_def)
  then show ?thesis
    by (simp add: digits_value_def)
qed

lemma digit_not_ws1: "is_digit c \<Longrightarrow> \<not> ws1 c"
  by (auto simp: is_digit_def ws1_def)

lemma digit_not_ws2: "is_digit c \<Longrightarrow> \<not> ws2 c c2"
  by (auto simp: is_digit_def ws2_def)

lemma digit_not_ws3: "is_digit c \<Longrightarrow> \<not> ws3 c c2 c3"
  by (auto simp: is_digit_def ws3_def)

lemma trim_start_digit: "is_digit c \<Longrightarrow> trim_start (c # s) = c # s"
proof (cases s)
  case Nil
  assume "is_digit c"
  with Nil show ?thesis by (simp add: digit_not_ws1)
next
  case (Cons c2 s2)
  assume d: "is_digit c"
  show ?thesis
  proof (cases s2)
    case Nil
    with Cons d show ?thesis by (simp add: digit_not_ws1 digit_not_ws2)
  next
    case (Cons c3 s3)
    with \<open>s = c2 # s2\<close> d show ?thesis
      by (simp add: digit_not_ws1 digit_not_ws2 digit_not_ws3)
  qed
qed


lemma toFixed2_fixed_text:
  assumes "0 \<le> x" "x < 10 ^ 21"
  shows "toFixed2 (Num x) = fixed_text (nat \<lfloor>x * 100 + 1 / 2\<rfloor>)"
  using assms by (simp add: toFixed2.simps fixed_text_def Let_def)

lemma exponent_part_Nil: "exponent_part [] = 0"
  by (simp add: exponent_part_def)

lemma parseFloat_fixed:
  assumes "ip \<noteq> []" "\<forall>c\<in>set ip. is_digit c" "\<forall>c\<in>set fp. is_digit c"
  shows "parseFloat (ip @ CHR ''.'' # fp) =
         number_value (of_nat (digits_value (ip @ fp)) * pow10 (- int (length fp)))"
proof -
  from assms(1) obtain c ip' where ip: "ip = c # ip'"
    by (cases ip) auto
  with assms(2) have c: "is_digit c"
    by simp
  then have c_ne: "c \<noteq> CHR ''-''" "c \<noteq> CHR ''+''" "c \<noteq> CHR ''I''"
    by (auto simp: is_digit_def)
  have dot: "\<not> is_digit (CHR ''.'')"
    by (simp add: is_digit_def)
  let ?s = "ip @ CHR ''.'' # fp"
  have t: "trim_start ?s = ?s"
    using c by (simp add: ip trim_start_digit)
  have hd: "hd ?s = c" "?s \<noteq> []"
    by (simp_all add: ip)
  have inf: "take 8 ?s \<noteq> ''Infinity''"
    by (simp add: ip c_ne)
  have tw: "takeWhile is_digit ?s = ip"
    using assms(2) dot by (simp add: takeWhile_tail)
  have dw: "dropWhile is_digit ?s = CHR ''.'' # fp"
    using assms(2) dot by (simp add: dropWhile_append3)
  have twf: "takeWhile is_digit fp = fp" and dwf: "dropWhile is_digit fp = []"
    using assms(3) by simp_all
  show ?thesis
    unfolding parseFloat_def Let_def t
    using hd inf assms(1) c_ne
    by (simp add: exponent_part_Nil tw dw twf dwf)
qed

lemma fixed_text_parts:
  obtains ip fp where "fixed_text n = ip @ ''.'' @ fp" "ip \<noteq> []" "length fp = 2"
    "\<forall>c\<in>set ip. is_digit c" "\<forall>c\<in>set fp. is_digit c" "digits_value (ip @ fp) = n"
proof -
  define m' where "m' = replicate (3 - length (digits n)) (CHR ''0'') @ digits n"
  have len: "3 \<le> length m'"
    by (simp add: m'_def)
  have "is_digit (CHR ''0'')"
    by (simp add: is_digit_def)
  then have dig: "\<forall>c\<in>set m'. is_digit c"
    by (auto simp: m'_def digits_all_digit)
  have val: "digits_value m' = n"
    by (simp add: m'_def digits_value_zeros digits_value_digits)
  let ?ip = "take (length m' - 2) m'" and ?fp = "drop (length m' - 2) m'"
  have "fixed_text n = ?ip @ ''.'' @ ?fp"
    by (simp add: fixed_text_def Let_def m'_def)
  moreover have "?ip \<noteq> []" using len by (cases m') auto
  moreover have "length ?fp = 2" using len by simp
  moreover have "\<forall>c\<in>set ?ip. is_digit c" using dig by (meson in_set_takeD)
  moreover have "\<forall>c\<in>set ?fp. is_digit c" using dig by (meson in_set_dropD)
  moreover have "digits_value (?ip @ ?fp) = n" using val by simp
  ultimately show thesis by (rule that)
qed

lemma parseFloat_fixed_text:
  "parseFloat (fixed_text n) = number_value (of_nat n / 100)"
proof -
  obtain ip fp where p: "fixed_text n = ip @ ''.'' @ fp" "ip \<noteq> []" "length fp = 2"
    "\<forall>c\<in>set ip. is_digit c" "\<forall>c\<in>set fp. is_digit c" "digits_value (ip @ fp) = n"
    by (rule fixed_text_parts)
  then show ?thesis
    by (simp add: parseFloat_fixed pow10_def)
qed

lemma parseFloat_toFixed2:
  assumes "0 \<le> x" "x < 10 ^ 21"
  shows "parseFloat (toFixed2 (Num x)) = number_value (round_half_up2 x)"
proof -
  have "0 \<le> \<lfloor>x * 100 + 1 / 2\<rfloor>"
    using assms(1) by simp
  then have "of_nat (nat \<lfloor>x * 100 + 1 / 2\<rfloor>) = (of_int \<lfloor>x * 100 + 1 / 2\<rfloor> :: rat)"
    by simp
  then show ?thesis
    unfolding toFixed2_fixed_text [OF assms] parseFloat_fixed_text round_half_up2_def
    by simp
qed

section \<open>Line extension and tax amount of a line\<close>

lemma round2_parse:
  assumes "0 \<le> x" "x < 10 ^ 21"
  shows "parseFloat (toFixed2 (Num x)) = round2 (Num x)"
  using assms by (simp add: parseFloat_toFixed2)

lemma groupLinesByTax_single:
  "groupLinesByTax [line] b =
     [\<lparr>categoryId = (if \<not> b then ''O'' else if js_gt (taxPercent_or_0 line) (Num 0) then ''S''
                      else ''Z''),
       percent = taxPercent_or_0 line,
       taxableAmount = calculateLineExtension line,
       taxAmount = parseFloat (toFixed2 (js_mul (calculateLineExtension line)
                     (js_div (taxPercent_or_0 line) (Num 100)))),
       exemptionReasonCode = (if \<not> b then Some ''VATEX-EU-O'' else None)\<rparr>]"
  by (simp add: groupLinesByTax_def group_line_def map_has_def map_set_def map_values_def Let_def)

lemma example_line_amounts:
  "toFixed2 (calculateLineExtension example_line) = ''102.50''"
  "map (\<lambda>g. toFixed2 (TaxGroup.taxAmount g)) (groupLinesByTax [example_line] b) = [''19.48'']"
  "toFixed2 (grandTotal (groupLinesByTax [example_line] b)) = ''121.98''"
  by (simp_all add: groupLinesByTax_single grandTotal_def totalTaxableAmount_def
        totalTaxAmount_def example_line_def calculateLineExtension_def taxPercent_or_0_def
        js_eval cong: let_weak_cong)

section \<open>The builder operations on a focus\<close>

lemma append_at_plug:
  "append_at (path_of st @ q) c (plug st t) = plug st (append_at q c t)"
proof (induction st arbitrary: t q)
  case Nil
  show ?case by (simp add: path_of_def)
next
  case (Cons f st)
  obtain n a ls where f: "f = (n, a, ls)" by (cases f)
  have "append_at (path_of (f # st) @ q) c (plug (f # st) t) =
      append_at (path_of st @ (length ls # q)) c (plug st (Element n a (ls @ [t])))"
    by (simp add: f path_of_def)
  also have "\<dots> = plug st (append_at (length ls # q) c (Element n a (ls @ [t])))"
    by (rule Cons.IH)
  also have "\<dots> = plug (f # st) (append_at q c t)"
    by (simp add: f)
  finally show ?case .
qed

lemma child_count_plug:
  "child_count (path_of st @ q) (plug st t) = child_count q t"
proof (induction st arbitrary: t q)
  case Nil
  show ?case by (simp add: path_of_def)
next
  case (Cons f st)
  obtain n a ls where f: "f = (n, a, ls)" by (cases f)
  have "child_count (path_of (f # st) @ q) (plug (f # st) t) =
      child_count (path_of st @ (length ls # q)) (plug st (Element n a (ls @ [t])))"
    by (simp add: f path_of_def)
  also have "\<dots> = child_count (length ls # q) (Element n a (ls @ [t]))"
    by (rule Cons.IH)
  also have "\<dots> = child_count q t"
    by simp
  finally show ?case .
qed

lemma step_Ele_focus:
  "step (focus st (Element n a cs)) (Ele m b) = focus ((n, a, cs) # st) (Element m b [])"
  using append_at_plug [of st "[]"] child_count_plug [of st "[]"]
  by (simp add: focus_def path_of_def)

lemma step_Txt_focus:
  "step (focus st (Element n a cs)) (Txt s) = focus st (Element n a (cs @ [Text s]))"
  using append_at_plug [of st "[]"] by (simp add: focus_def)

lemma step_Up_focus:
  "step (focus ((n, a, cs) # st) t) Up = focus st (Element n a (cs @ [t]))"
  by (simp add: focus_def path_of_def)

lemma run_Nil: "run b [] = b"
  by (simp add: run_def)

lemma run_Cons: "run b (x # xs) = run (step b x) xs"
  by (simp add: run_def)

lemma root_focus: "(t, []) = focus [] t"
  by (simp add: focus_def path_of_def)

lemma at_ref_same: "at_ref (focus st t0) (focus st t) = focus st t"
  by (simp add: at_ref_def focus_def)

lemma at_ref_deeper:
  "length st \<le> length st' \<Longrightarrow>
   at_ref (focus st t0) (focus ((n, a, cs) # st') t) =
   at_ref (focus st t0) (focus st' (Element n a (cs @ [t])))"
  by (simp add: at_ref_def focus_def)

lemma fst_focus: "fst (focus st t) = plug st t"
  by (simp add: focus_def)

lemmas builder_eval = run_Nil run_Cons step_Ele_focus step_Txt_focus step_Up_focus
  at_ref_same at_ref_deeper fst_focus


lemma snd_focus_Nil: "snd (focus [] t) = []"
  by (simp add: focus_def path_of_def)

lemma at_ref_at_ref: "at_ref r (at_ref r' b) = at_ref r b"
  by (simp add: at_ref_def)

section \<open>The document that is built\<close>

lemma buildPartyXml_tree:
  assumes "address party = Some addr" "registrationName party = Some rn"
    "companyId party = Some cid"
  shows "buildPartyXml m (focus [] (Element n a cs)) tag party =
         Inr (Element n a (cs @ [party_xml m tag party addr rn cid]))"
  using assms by (simp add: buildPartyXml_def txt_opt_def party_xml_def Let_def builder_eval)

lemma tax_subtotal_focus:
  assumes "at_ref (focus st t0) b = focus st (Element tn ta ts)"
  shows "at_ref (focus st t0) (tax_subtotal cur (focus st t0) b g) =
         focus st (Element tn ta (ts @ [tax_subtotal_xml cur g]))"
  using assms
  by (simp add: tax_subtotal_def tax_subtotal_xml_def Let_def builder_eval
        split: option.split)

lemma tax_subtotals_focus:
  assumes "at_ref (focus st t0) b = focus st (Element tn ta ts)"
  shows "at_ref (focus st t0) (foldl (tax_subtotal cur (focus st t0)) b gs) =
         focus st (Element tn ta (ts @ map (tax_subtotal_xml cur) gs))"
  using assms
proof (induction gs arbitrary: b ts)
  case Nil
  then show ?case by simp
next
  case (Cons g gs)
  from Cons.prems have "at_ref (focus st t0) (tax_subtotal cur (focus st t0) b g) =
      focus st (Element tn ta (ts @ [tax_subtotal_xml cur g]))"
    by (rule tax_subtotal_focus)
  from Cons.IH [OF this] show ?case by simp
qed

lemma invoice_line_focus:
  assumes "name line = Some nm"
  shows "invoice_line m cur v (focus [] r0) (focus [] (Element n a cs)) line i =
         Inr (focus [] (Element n a (cs @ [invoice_line_xml m cur v line i])))"
  using assms
  by (simp add: invoice_line_def invoice_line_xml_def line_id_text_def or_empty_def txt_opt_def
        Let_def builder_eval split: option.split line_id.split)

lemma invoice_lines_focus:
  assumes "\<forall>l\<in>set ls. name l \<noteq> None"
  shows "invoice_lines m cur v (focus [] r0) (focus [] (Element n a cs)) ls i =
         Inr (focus [] (Element n a (cs @ invoice_lines_xml m cur v ls i)))"
  using assms
proof (induction ls arbitrary: cs i)
  case Nil
  then show ?case by simp
next
  case (Cons l ls)
  from Cons.prems obtain nm where nm: "name l = Some nm"
    by auto
  from Cons.prems have rest: "\<forall>l\<in>set ls. name l \<noteq> None"
    by simp
  show ?case
    by (simp add: invoice_line_focus [OF nm] Cons.IH [OF rest])
qed


lemma root_after_subtotals:
  "at_ref (focus [] r) (foldl (tax_subtotal cur (focus st t0)) (focus st (Element tn ta ts)) gs) =
   at_ref (focus [] r) (focus st (Element tn ta (ts @ map (tax_subtotal_xml cur) gs)))"
proof -
  have "at_ref (focus st t0) (focus st (Element tn ta ts)) = focus st (Element tn ta ts)"
    by (rule at_ref_same)
  from tax_subtotals_focus [OF this]
  have "at_ref (focus st t0)
      (foldl (tax_subtotal cur (focus st t0)) (focus st (Element tn ta ts)) gs) =
      focus st (Element tn ta (ts @ map (tax_subtotal_xml cur) gs))" .
  then show ?thesis
    by (metis at_ref_at_ref)
qed

lemma validateLines_names:
  "validateLines ls i = Inr u \<Longrightarrow> \<forall>l\<in>set ls. name l \<noteq> None"
proof (induction ls arbitrary: i)
  case Nil
  then show ?case by simp
next
  case (Cons l ls)
  from Cons.prems have "validateLine l i = Inr ()" and "validateLines ls (i + 1) = Inr u"
    by (auto split: sum.splits)
  moreover from \<open>validateLine l i = Inr ()\<close> have "name l \<noteq> None"
    by (auto simp: validateLine_def blank_def split: if_splits option.splits)
  ultimately show ?case
    using Cons.IH by auto
qed

lemma validateParty_present:
  assumes "validateParty p role = Inr u"
  obtains a rn cid where "address p = Some a" "registrationName p = Some rn"
    "companyId p = Some cid"
  using assms
  by (auto simp: validateParty_def blank_def split: if_splits option.splits)

lemma valid_input_present:
  assumes "validateInvoiceInput (Some inp) = Inr u"
  obtains suppl cust ls invNum issue sa sn sc ca cn cc where
    "supplier inp = Some suppl" "customer inp = Some cust" "lines inp = Some ls"
    "invoiceNumber inp = Some invNum" "issueDate inp = Some issue"
    "address suppl = Some sa" "registrationName suppl = Some sn" "companyId suppl = Some sc"
    "address cust = Some ca" "registrationName cust = Some cn" "companyId cust = Some cc"
    "\<forall>l\<in>set ls. name l \<noteq> None"
proof -
  from assms obtain invNum issue suppl cust ls where
    p: "invoiceNumber inp = Some invNum" "issueDate inp = Some issue"
       "supplier inp = Some suppl" "customer inp = Some cust" "lines inp = Some ls"
    and vs: "validateParty suppl ''Supplier'' = Inr ()"
    and vc: "validateParty cust ''Customer'' = Inr ()"
    and vl: "ls = [] \<or> validateLines ls 0 = Inr u"
    by (auto simp: validateInvoiceInput_def blank_def
          split: if_splits option.splits sum.splits)
  from vs obtain sa sn sc where s: "address suppl = Some sa" "registrationName suppl = Some sn"
    "companyId suppl = Some sc"
    by (rule validateParty_present)
  from vc obtain ca cn cc where c: "address cust = Some ca" "registrationName cust = Some cn"
    "companyId cust = Some cc"
    by (rule validateParty_present)
  from vl have n: "\<forall>l\<in>set ls. name l \<noteq> None"
    using validateLines_names by auto
  show thesis
    by (rule that [OF p(3,4,5,1,2) s c n])
qed

lemma payment_means_focus:
  "(case paymentIban inp of
      None \<Rightarrow> focus [] (Element n a cs)
    | Some iban \<Rightarrow>
        if iban = [] then focus [] (Element n a cs)
        else run (focus [] (Element n a cs))
          [Ele ''cac:PaymentMeans'' [],
           Ele ''cbc:PaymentMeansCode'' [], Txt ''30'', Up,
           Ele ''cac:PayeeFinancialAccount'' [],
           Ele ''cbc:ID'' [], Txt iban, Up,
           Up, Up]) =
   focus [] (Element n a (cs @ payment_means_xml inp))"
  by (simp add: payment_means_xml_def builder_eval split: option.split)

lemma tax_total_focus:
  "at_ref (focus [] r)
     (if 0 < length gs then
        foldl (tax_subtotal cur (focus [(n, a, cs)] (Element ''cac:TaxTotal'' [] [amount])))
          (focus [(n, a, cs)] (Element ''cac:TaxTotal'' [] [amount])) gs
      else run (focus [(n, a, cs)] (Element ''cac:TaxTotal'' [] [amount]))
        [Ele ''cac:TaxSubtotal'' [],
         Ele ''cbc:TaxableAmount'' [(''currencyID'', cur)], Txt ''0.00'', Up,
         Ele ''cbc:TaxAmount'' [(''currencyID'', cur)], Txt ''0.00'', Up,
         Ele ''cac:TaxCategory'' [],
         Ele ''cbc:ID'' [], Txt ''S'', Up,
         Ele ''cbc:Percent'' [], Txt ''0.00'', Up,
         Ele ''cac:TaxScheme'' [],
         Ele ''cbc:ID'' [], Txt ''VAT'', Up,
         Up, Up, Up]) =
   focus [] (Element n a (cs @
     [Element ''cac:TaxTotal'' []
        (amount # (if 0 < length gs then map (tax_subtotal_xml cur) gs
                   else [default_subtotal_xml cur]))]))"
  by (simp add: root_after_subtotals default_subtotal_xml_def builder_eval)

lemma buildInvoiceXml_document:
  assumes "validateInvoiceInput (Some inp) = Inr u"
    and "supplier inp = Some suppl" "customer inp = Some cust" "lines inp = Some ls"
    and "invoiceNumber inp = Some invNum" "issueDate inp = Some issue"
    and "address suppl = Some sa" "registrationName suppl = Some sn" "companyId suppl = Some sc"
    and "address cust = Some ca" "registrationName cust = Some cn" "companyId cust = Some cc"
    and "\<forall>l\<in>set ls. name l \<noteq> None"
  shows "buildInvoiceXml m (Some inp) =
         Inr (invoice_document m inp suppl cust ls invNum issue sa sn sc ca cn cc)"
  using assms(1-6)
  by (simp add: buildInvoiceXml_def invoice_document_def invoice_header_xml_def
        tax_total_xml_def legal_monetary_total_xml_def invoice_currency_def
        invoice_groups_def invoice_attributes_def Let_def root_focus snd_focus_Nil
        builder_eval buildPartyXml_tree [OF assms(7-9)] buildPartyXml_tree [OF assms(10-12)]
        payment_means_focus tax_total_focus invoice_lines_focus [OF assms(13)]
        del: length_greater_0_conv split del: if_split cong: let_weak_cong)

section \<open>Validation raises the first violation\<close>

lemma first_violation_append:
  "first_violation (xs @ ys) =
     (case first_violation xs of Inl e \<Rightarrow> Inl e | Inr u \<Rightarrow> first_violation ys)"
  by (cases xs) (simp_all add: first_violation_def)

lemma first_violation_simps:
  "first_violation [] = Inr ()"
  "first_violation (v # vs) = Inl (AnafValidationError v)"
  by (simp_all add: first_violation_def)

lemma validateAddress_violations:
  "validateAddress a role = first_violation (address_violations a role)"
  by (simp add: validateAddress_def address_violations_def first_violation_append
        first_violation_simps)

lemma validateParty_violations:
  "validateParty p role = first_violation (party_violations p role)"
  by (simp add: validateParty_def party_violations_def first_violation_append
        first_violation_simps validateAddress_violations split: option.split)

lemma validateLine_violations:
  "validateLine l i = first_violation (line_violations l (i + 1))"
  by (simp add: validateLine_def line_violations_def first_violation_append
        first_violation_simps split: option.split)

lemma validateLines_violations:
  "validateLines ls i = first_violation (lines_violations ls (i + 1))"
proof (induction ls arbitrary: i)
  case Nil
  show ?case by (simp add: first_violation_simps)
next
  case (Cons l ls)
  show ?case
    by (simp add: validateLine_violations Cons.IH first_violation_append split: sum.split)
qed

lemma validateInvoiceInput_violations:
  "validateInvoiceInput (Some inp) = first_violation (violations inp)"
proof -
  have lines: "validateLines ls 0 = first_violation (lines_violations ls (Suc 0))" for ls
    using validateLines_violations [of ls 0] by simp
  show ?thesis
    by (simp add: validateInvoiceInput_def violations_def first_violation_append
          first_violation_simps validateParty_violations lines
          split: option.split sum.split)
qed

lemma buildInvoiceXml_invalid:
  "validateInvoiceInput input = Inl e \<Longrightarrow> buildInvoiceXml m input = Inl e"
  by (simp add: buildInvoiceXml_def)

lemma buildInvoiceXml_valid:
  assumes "validateInvoiceInput (Some inp) = Inr u"
  shows "\<exists>doc. buildInvoiceXml m (Some inp) = Inr doc"
proof -
  from assms obtain suppl cust ls invNum issue sa sn sc ca cn cc where
    "supplier inp = Some suppl" "customer inp = Some cust" "lines inp = Some ls"
    "invoiceNumber inp = Some invNum" "issueDate inp = Some issue"
    "address suppl = Some sa" "registrationName suppl = Some sn" "companyId suppl = Some sc"
    "address cust = Some ca" "registrationName cust = Some cn" "companyId cust = Some cc"
    "\<forall>l\<in>set ls. name l \<noteq> None"
    by (rule valid_input_present)
  with assms show ?thesis
    using buildInvoiceXml_document by blast
qed

text \<open>
  C5. Whatever the imported modules are, \<^verbatim>\<open>buildInvoiceXml\<close> on an input either returns
  a document, when the input has no violation, or raises \<^verbatim>\<open>AnafValidationError\<close> with
  the message of the first violation in the order invoice number, issue date,
  supplier, customer, lines array, lines in sequence (numbered from 1); it never
  raises another error, and the error is the one \<^verbatim>\<open>validateInvoiceInput\<close> raised
  before any node was created.
\<close>

theorem C5_first_violation:
  "validateInvoiceInput (Some inp) = first_violation (violations inp) \<and>
   (violations inp = [] \<longrightarrow> (\<exists>doc. buildInvoiceXml m (Some inp) = Inr doc)) \<and>
   (\<forall>v vs. violations inp = v # vs \<longrightarrow>
      buildInvoiceXml m (Some inp) = Inl (AnafValidationError v)) \<and>
   buildInvoiceXml m (Some inp) \<noteq> Inl TypeError \<and>
   (\<forall>e. validateInvoiceInput (Some inp) = Inl e \<longrightarrow> buildInvoiceXml m (Some inp) = Inl e)"
proof -
  have v: "validateInvoiceInput (Some inp) = first_violation (violations inp)"
    by (rule validateInvoiceInput_violations)
  have ok: "\<exists>doc. buildInvoiceXml m (Some inp) = Inr doc" if "violations inp = []"
    using that v buildInvoiceXml_valid [of inp "()" m] by (simp add: first_violation_simps)
  have bad: "buildInvoiceXml m (Some inp) = Inl (AnafValidationError w)"
    if "violations inp = w # ws" for w ws
    using that v buildInvoiceXml_invalid [of "Some inp" "AnafValidationError w" m]
    by (simp add: first_violation_simps)
  have "buildInvoiceXml m (Some inp) \<noteq> Inl TypeError"
    using ok bad by (cases "violations inp") auto
  with v ok bad buildInvoiceXml_invalid show ?thesis
    by blast
qed

theorem C5_first_violation_witness:
  "violations faulty_input =
     [''Customer street address is required'',
      ''Line 2: Quantity must be a positive number'',
      ''Line 2: Unit price must be a non-negative number''] \<and>
   buildInvoiceXml plain_modules (Some faulty_input) =
     Inl (AnafValidationError ''Customer street address is required'') \<and>
   violations (plain_input []) = [] \<and>
   (\<exists>doc. buildInvoiceXml plain_modules (Some (plain_input [])) = Inr doc)"
proof -
  have v1: "violations faulty_input =
     [''Customer street address is required'',
      ''Line 2: Quantity must be a positive number'',
      ''Line 2: Unit price must be a non-negative number'']"
    by (simp add: violations_def faulty_input_def plain_input_def plain_party_def
          plain_address_def example_line_def party_violations_def address_violations_def
          line_violations_def blank_def js_eval)
  have v2: "violations (plain_input []) = []"
    by (simp add: violations_def plain_input_def plain_party_def plain_address_def
          party_violations_def address_violations_def blank_def js_eval)
  from C5_first_violation [of faulty_input plain_modules] v1
  have "buildInvoiceXml plain_modules (Some faulty_input) =
      Inl (AnafValidationError ''Customer street address is required'')"
    by blast
  moreover from C5_first_violation [of "plain_input []" plain_modules] v2
  have "\<exists>doc. buildInvoiceXml plain_modules (Some (plain_input [])) = Inr doc"
    by blast
  ultimately show ?thesis
    using v1 v2 by simp
qed

section \<open>The party block\<close>

lemma party_tags_distinct:
  assumes "tag = ''cac:AccountingSupplierParty'' \<or> tag = ''cac:AccountingCustomerParty''"
  shows "tag \<noteq> ''cac:PartyTaxScheme''" "tag \<noteq> ''cbc:CompanyID''"
  using assms by auto

text \<open>
  C10. For a valid party built under either party tag, the block that
  \<^verbatim>\<open>buildPartyXml\<close> appends contains a \<^verbatim>\<open>cac:PartyTaxScheme\<close> element exactly when
  \<^verbatim>\<open>isVatPayer\<close> is true, and then one whose \<^verbatim>\<open>cbc:CompanyID\<close> is the normalised
  company id and whose tax scheme id is VAT; the company id as given is the text
  of the \<^verbatim>\<open>cbc:CompanyID\<close> of \<^verbatim>\<open>cac:PartyLegalEntity\<close>, and the block has no other
  \<^verbatim>\<open>cbc:CompanyID\<close>.
\<close>

theorem C10_party_tax_scheme:
  assumes "validateParty party role = Inr ()"
    and "tag = ''cac:AccountingSupplierParty'' \<or> tag = ''cac:AccountingCustomerParty''"
  shows "\<exists>block cid.
     companyId party = Some cid \<and>
     buildPartyXml m (Element n a cs, []) tag party = Inr (Element n a (cs @ [block])) \<and>
     elements_named ''cac:PartyTaxScheme'' block =
       (if isVatPayer party = Some True then
          [Element ''cac:PartyTaxScheme'' []
             [Element ''cbc:CompanyID'' [] [Text (normalizeVatNumber m cid)],
              Element ''cac:TaxScheme'' [] [Element ''cbc:ID'' [] [Text ''VAT'']]]]
        else []) \<and>
     select [''cac:Party'', ''cac:PartyLegalEntity'', ''cbc:CompanyID''] block =
       [Element ''cbc:CompanyID'' [] [Text cid]] \<and>
     elements_named ''cbc:CompanyID'' block =
       (if isVatPayer party = Some True
        then [Element ''cbc:CompanyID'' [] [Text (normalizeVatNumber m cid)]] else []) @
       [Element ''cbc:CompanyID'' [] [Text cid]]"
proof -
  from assms(1) obtain addr rn cid where p: "address party = Some addr"
    "registrationName party = Some rn" "companyId party = Some cid"
    by (rule validateParty_present)
  let ?block = "party_xml m tag party addr rn cid"
  have "buildPartyXml m (Element n a cs, []) tag party = Inr (Element n a (cs @ [?block]))"
    using buildPartyXml_tree [OF p] by (simp add: root_focus)
  moreover have "elements_named ''cac:PartyTaxScheme'' ?block =
       (if isVatPayer party = Some True then
          [Element ''cac:PartyTaxScheme'' []
             [Element ''cbc:CompanyID'' [] [Text (normalizeVatNumber m cid)],
              Element ''cac:TaxScheme'' [] [Element ''cbc:ID'' [] [Text ''VAT'']]]]
        else [])"
    using party_tags_distinct [OF assms(2)] by (simp add: party_xml_def)
  moreover have "select [''cac:Party'', ''cac:PartyLegalEntity'', ''cbc:CompanyID''] ?block =
       [Element ''cbc:CompanyID'' [] [Text cid]]"
    by (simp add: party_xml_def children_named_def)
  moreover have "elements_named ''cbc:CompanyID'' ?block =
       (if isVatPayer party = Some True
        then [Element ''cbc:CompanyID'' [] [Text (normalizeVatNumber m cid)]] else []) @
       [Element ''cbc:CompanyID'' [] [Text cid]]"
    using party_tags_distinct [OF assms(2)] by (simp add: party_xml_def)
  ultimately show ?thesis
    using p(3) by blast
qed


theorem C10_party_tax_scheme_witness:
  "\<exists>block.
     buildPartyXml capital_modules (Element ''Invoice'' [] [], []) ''cac:AccountingCustomerParty''
       capital_party = Inr (Element ''Invoice'' [] [block]) \<and>
     elements_named ''cac:PartyTaxScheme'' block =
       [Element ''cac:PartyTaxScheme'' []
          [Element ''cbc:CompanyID'' [] [Text ''RO87654321''],
           Element ''cac:TaxScheme'' [] [Element ''cbc:ID'' [] [Text ''VAT'']]]] \<and>
     select [''cac:Party'', ''cac:PartyLegalEntity'', ''cbc:CompanyID''] block =
       [Element ''cbc:CompanyID'' [] [Text ''87654321'']]"
proof -
  have h1: "validateParty capital_party ''Customer'' = Inr ()"
    by (simp add: validateParty_def validateAddress_def capital_party_def blank_def js_eval)
  have h2: "''cac:AccountingCustomerParty'' = ''cac:AccountingSupplierParty'' \<or>
      ''cac:AccountingCustomerParty'' = ''cac:AccountingCustomerParty''"
    by simp
  from C10_party_tax_scheme [OF h1 h2, of capital_modules "''Invoice''" "[]" "[]"]
  show ?thesis
    by (auto simp: capital_party_def capital_modules_def plain_modules_def)
qed

text \<open>
  C9. For a valid party the block that \<^verbatim>\<open>buildPartyXml\<close> appends has, in its postal
  address, the county text that \<^verbatim>\<open>sanitizeCounty\<close> returns for the county of the
  address, or the empty text when it returns null; and the city text is what
  \<^verbatim>\<open>sanitizeBucharestSector\<close> returns for the city (empty when null) if
  \<^verbatim>\<open>isBucharest\<close> holds of the sanitized county, and the city as given otherwise.
  The three functions are parameters; no result of theirs makes the builder fail.
\<close>

theorem C9_county_and_city:
  assumes "validateParty party role = Inr ()"
  shows "\<exists>block addr c.
     address party = Some addr \<and> city addr = Some c \<and>
     buildPartyXml m (Element n a cs, []) tag party = Inr (Element n a (cs @ [block])) \<and>
     texts_at [''cac:Party'', ''cac:PostalAddress'', ''cbc:CountrySubentity''] block =
       [case sanitize_county m (county addr) of None \<Rightarrow> [] | Some code \<Rightarrow> code] \<and>
     texts_at [''cac:Party'', ''cac:PostalAddress'', ''cbc:CityName''] block =
       [if is_bucharest m (sanitize_county m (county addr))
        then (case sanitize_bucharest_sector m (city addr) of None \<Rightarrow> [] | Some s \<Rightarrow> s)
        else c]"
proof -
  from assms obtain addr rn cid where p: "address party = Some addr"
    "registrationName party = Some rn" "companyId party = Some cid"
    by (rule validateParty_present)
  from assms p(1) obtain c where c: "city addr = Some c"
    by (auto simp: validateParty_def validateAddress_def blank_def
          split: if_splits option.splits)
  let ?block = "party_xml m tag party addr rn cid"
  have "buildPartyXml m (Element n a cs, []) tag party = Inr (Element n a (cs @ [?block]))"
    using buildPartyXml_tree [OF p] by (simp add: root_focus)
  moreover have
    "texts_at [''cac:Party'', ''cac:PostalAddress'', ''cbc:CountrySubentity''] ?block =
       [case sanitize_county m (county addr) of None \<Rightarrow> [] | Some code \<Rightarrow> code]"
    by (simp add: party_xml_def texts_at_def children_named_def or_empty_def)
  moreover have
    "texts_at [''cac:Party'', ''cac:PostalAddress'', ''cbc:CityName''] ?block =
       [if is_bucharest m (sanitize_county m (county addr))
        then (case sanitize_bucharest_sector m (city addr) of None \<Rightarrow> [] | Some s \<Rightarrow> s)
        else c]"
    by (simp add: party_xml_def texts_at_def children_named_def or_empty_def c)
  ultimately show ?thesis
    using p(1) c by blast
qed

theorem C9_county_and_city_witness:
  "(\<exists>block.
     buildPartyXml capital_modules (Element ''Invoice'' [] [], []) ''cac:AccountingCustomerParty''
       capital_party = Inr (Element ''Invoice'' [] [block]) \<and>
     texts_at [''cac:Party'', ''cac:PostalAddress'', ''cbc:CountrySubentity''] block = [''RO-B''] \<and>
     texts_at [''cac:Party'', ''cac:PostalAddress'', ''cbc:CityName''] block = [''SECTOR3'']) \<and>
   (\<exists>block.
     buildPartyXml capital_modules (Element ''Invoice'' [] [], []) ''cac:AccountingSupplierParty''
       plain_party = Inr (Element ''Invoice'' [] [block]) \<and>
     texts_at [''cac:Party'', ''cac:PostalAddress'', ''cbc:CountrySubentity''] block = [[]] \<and>
     texts_at [''cac:Party'', ''cac:PostalAddress'', ''cbc:CityName''] block = [''Cluj-Napoca''])"
proof -
  have h1: "validateParty capital_party ''Customer'' = Inr ()"
    by (simp add: validateParty_def validateAddress_def capital_party_def blank_def js_eval)
  have h2: "validateParty plain_party ''Supplier'' = Inr ()"
    by (simp add: validateParty_def validateAddress_def plain_party_def plain_address_def
          blank_def js_eval)
  from C9_county_and_city [OF h1, of capital_modules "''Invoice''" "[]" "[]"
      "''cac:AccountingCustomerParty''"]
  have a: "\<exists>block.
     buildPartyXml capital_modules (Element ''Invoice'' [] [], []) ''cac:AccountingCustomerParty''
       capital_party = Inr (Element ''Invoice'' [] [block]) \<and>
     texts_at [''cac:Party'', ''cac:PostalAddress'', ''cbc:CountrySubentity''] block = [''RO-B''] \<and>
     texts_at [''cac:Party'', ''cac:PostalAddress'', ''cbc:CityName''] block = [''SECTOR3'']"
    by (auto simp: capital_party_def capital_modules_def plain_modules_def)
  from C9_county_and_city [OF h2, of capital_modules "''Invoice''" "[]" "[]"
      "''cac:AccountingSupplierParty''"]
  have b: "\<exists>block.
     buildPartyXml capital_modules (Element ''Invoice'' [] [], []) ''cac:AccountingSupplierParty''
       plain_party = Inr (Element ''Invoice'' [] [block]) \<and>
     texts_at [''cac:Party'', ''cac:PostalAddress'', ''cbc:CountrySubentity''] block = [[]] \<and>
     texts_at [''cac:Party'', ''cac:PostalAddress'', ''cbc:CityName''] block = [''Cluj-Napoca'']"
    by (auto simp: plain_party_def plain_address_def capital_modules_def plain_modules_def)
  from a b show ?thesis by blast
qed

section \<open>Totals and the empty invoice\<close>

lemma two_decimals_fixed_text: "two_decimals (fixed_text n)"
proof -
  obtain ip fp where p: "fixed_text n = ip @ ''.'' @ fp" "ip \<noteq> []" "length fp = 2"
    "\<forall>c\<in>set ip. is_digit c" "\<forall>c\<in>set fp. is_digit c" "digits_value (ip @ fp) = n"
    by (rule fixed_text_parts)
  have dot: "\<not> is_digit (CHR ''.'')"
    by (simp add: is_digit_def)
  have "takeWhile is_digit (ip @ CHR ''.'' # fp) = ip"
    using p(4) dot by (simp add: takeWhile_tail)
  moreover have "dropWhile is_digit (ip @ CHR ''.'' # fp) = CHR ''.'' # fp"
    using p(4) dot by (simp add: dropWhile_append3)
  ultimately show ?thesis
    using p(1,2,3,5) by (simp add: two_decimals_def list_all_iff)
qed

lemma two_decimals_toFixed2:
  assumes "fixed_range x"
  shows "two_decimals (toFixed2 x)"
proof -
  from assms obtain v where v: "x = Num v" "0 \<le> v" "v < 10 ^ 21"
    by (cases x) auto
  then show ?thesis
    by (simp add: toFixed2_fixed_text two_decimals_fixed_text)
qed

lemma round2_fixed_range:
  assumes "fixed_range x"
  shows "parseFloat (toFixed2 x) = round2 x"
proof -
  from assms obtain v where v: "x = Num v" "0 \<le> v" "v < 10 ^ 21"
    by (cases x) auto
  then show ?thesis
    by (simp add: round2_parse)
qed

lemma invoice_lines_xml_names:
  "x \<in> set (invoice_lines_xml m cur v ls i) \<Longrightarrow> elem_name x = Some ''cac:InvoiceLine''"
  by (induction ls arbitrary: i) (auto simp: invoice_line_xml_def)

lemma filter_invoice_lines_xml:
  "n \<noteq> ''cac:InvoiceLine'' \<Longrightarrow>
   filter (\<lambda>c. elem_name c = Some n) (invoice_lines_xml m cur v ls i) = []"
  by (auto simp: filter_empty_conv dest: invoice_lines_xml_names)

lemma filter_payment_means_xml:
  "n \<noteq> ''cac:PaymentMeans'' \<Longrightarrow>
   filter (\<lambda>c. elem_name c = Some n) (payment_means_xml inp) = []"
  by (auto simp: payment_means_xml_def split: option.split)

lemma select_tax_total:
  "select [''cac:TaxTotal''] (invoice_document m inp suppl cust ls invNum issue sa sn sc ca cn cc) =
     [tax_total_xml (invoice_currency m inp) (invoice_groups suppl ls)]"
  by (simp add: invoice_document_def invoice_header_xml_def party_xml_def children_named_def
        filter_invoice_lines_xml filter_payment_means_xml tax_total_xml_def
        legal_monetary_total_xml_def)

lemma select_legal_monetary_total:
  "select [''cac:LegalMonetaryTotal'']
     (invoice_document m inp suppl cust ls invNum issue sa sn sc ca cn cc) =
     [legal_monetary_total_xml (invoice_currency m inp) (invoice_groups suppl ls)]"
  by (simp add: invoice_document_def invoice_header_xml_def party_xml_def children_named_def
        filter_invoice_lines_xml filter_payment_means_xml tax_total_xml_def
        legal_monetary_total_xml_def)

lemma concat_select_Nil: "concat (map (select []) xs) = xs"
  by (induction xs) simp_all

lemma select_single: "select [n] x = children_named n x"
  by (simp add: concat_select_Nil)

lemma select_Cons_single:
  "select [n] x = [y] \<Longrightarrow> select (n # ns) x = select ns y"
  by (simp add: concat_select_Nil)

lemma legal_monetary_total_texts:
  "texts_at [''cbc:LineExtensionAmount''] (legal_monetary_total_xml cur gs) =
     [toFixed2 (totalTaxableAmount gs)]"
  "texts_at [''cbc:TaxExclusiveAmount''] (legal_monetary_total_xml cur gs) =
     [toFixed2 (totalTaxableAmount gs)]"
  "texts_at [''cbc:TaxInclusiveAmount''] (legal_monetary_total_xml cur gs) =
     [toFixed2 (grandTotal gs)]"
  "texts_at [''cbc:PayableAmount''] (legal_monetary_total_xml cur gs) =
     [toFixed2 (grandTotal gs)]"
  by (simp_all add: legal_monetary_total_xml_def texts_at_def children_named_def)

lemma texts_at_Cons_single:
  "select [n] x = [y] \<Longrightarrow> texts_at (n # ns) x = texts_at ns y"
  by (simp add: texts_at_def concat_select_Nil)


lemma empty_totals:
  "toFixed2 (totalTaxableAmount []) = ''0.00''"
  "toFixed2 (totalTaxAmount []) = ''0.00''"
  "toFixed2 (grandTotal []) = ''0.00''"
  by (simp_all add: totalTaxableAmount_def totalTaxAmount_def grandTotal_def js_eval
        cong: let_weak_cong)

text \<open>
  C6. For a valid input whose lines array is present and empty, \<^verbatim>\<open>buildInvoiceXml\<close>
  returns a document; there are no tax groups; the tax amount of \<^verbatim>\<open>cac:TaxTotal\<close>
  and the four amounts of \<^verbatim>\<open>cac:LegalMonetaryTotal\<close> are 0.00; and \<^verbatim>\<open>cac:TaxTotal\<close>
  has exactly one \<^verbatim>\<open>cac:TaxSubtotal\<close>, the default one, with amounts 0.00, category S
  and percent 0.00.
\<close>

theorem C6_empty_lines:
  assumes "validateInvoiceInput (Some inp) = Inr ()"
    and "lines inp = Some []"
  shows "\<exists>doc suppl.
     buildInvoiceXml m (Some inp) = Inr doc \<and>
     supplier inp = Some suppl \<and>
     invoice_groups suppl [] = [] \<and>
     texts_at [''cac:TaxTotal'', ''cbc:TaxAmount''] doc = [''0.00''] \<and>
     texts_at [''cac:LegalMonetaryTotal'', ''cbc:LineExtensionAmount''] doc = [''0.00''] \<and>
     texts_at [''cac:LegalMonetaryTotal'', ''cbc:TaxExclusiveAmount''] doc = [''0.00''] \<and>
     texts_at [''cac:LegalMonetaryTotal'', ''cbc:TaxInclusiveAmount''] doc = [''0.00''] \<and>
     texts_at [''cac:LegalMonetaryTotal'', ''cbc:PayableAmount''] doc = [''0.00''] \<and>
     select [''cac:TaxTotal'', ''cac:TaxSubtotal''] doc =
       [default_subtotal_xml (invoice_currency m inp)] \<and>
     texts_at [''cac:TaxTotal'', ''cac:TaxSubtotal'', ''cbc:TaxableAmount''] doc = [''0.00''] \<and>
     texts_at [''cac:TaxTotal'', ''cac:TaxSubtotal'', ''cbc:TaxAmount''] doc = [''0.00''] \<and>
     texts_at [''cac:TaxTotal'', ''cac:TaxSubtotal'', ''cac:TaxCategory'', ''cbc:ID''] doc =
       [''S''] \<and>
     texts_at [''cac:TaxTotal'', ''cac:TaxSubtotal'', ''cac:TaxCategory'', ''cbc:Percent''] doc =
       [''0.00'']"
proof -
  from assms(1) obtain suppl cust ls invNum issue sa sn sc ca cn cc where
    p: "supplier inp = Some suppl" "customer inp = Some cust" "lines inp = Some ls"
    "invoiceNumber inp = Some invNum" "issueDate inp = Some issue"
    "address suppl = Some sa" "registrationName suppl = Some sn" "companyId suppl = Some sc"
    "address cust = Some ca" "registrationName cust = Some cn" "companyId cust = Some cc"
    "\<forall>l\<in>set ls. name l \<noteq> None"
    by (rule valid_input_present)
  from p(3) assms(2) have ls: "ls = []"
    by simp
  let ?doc = "invoice_document m inp suppl cust ls invNum issue sa sn sc ca cn cc"
  let ?cur = "invoice_currency m inp"
  have doc: "buildInvoiceXml m (Some inp) = Inr ?doc"
    using assms(1) p by (rule buildInvoiceXml_document)
  have g: "invoice_groups suppl [] = []"
    by (simp add: invoice_groups_def)
  have tt: "select [''cac:TaxTotal''] ?doc = [tax_total_xml ?cur []]"
    unfolding select_tax_total ls g ..
  have lm: "select [''cac:LegalMonetaryTotal''] ?doc = [legal_monetary_total_xml ?cur []]"
    unfolding select_legal_monetary_total ls g ..
  have t1: "texts_at [''cac:TaxTotal'', ''cbc:TaxAmount''] ?doc = [''0.00'']"
    unfolding texts_at_Cons_single [OF tt]
    by (simp add: tax_total_xml_def texts_at_def children_named_def default_subtotal_xml_def
          empty_totals)
  have t2: "texts_at [''cac:LegalMonetaryTotal'', ''cbc:LineExtensionAmount''] ?doc = [''0.00'']"
    "texts_at [''cac:LegalMonetaryTotal'', ''cbc:TaxExclusiveAmount''] ?doc = [''0.00'']"
    "texts_at [''cac:LegalMonetaryTotal'', ''cbc:TaxInclusiveAmount''] ?doc = [''0.00'']"
    "texts_at [''cac:LegalMonetaryTotal'', ''cbc:PayableAmount''] ?doc = [''0.00'']"
    unfolding texts_at_Cons_single [OF lm]
    by (simp_all add: legal_monetary_total_texts empty_totals)
  have s: "select [''cac:TaxTotal'', ''cac:TaxSubtotal''] ?doc = [default_subtotal_xml ?cur]"
    unfolding select_Cons_single [OF tt]
    by (simp add: tax_total_xml_def children_named_def default_subtotal_xml_def)
  have t3: "texts_at [''cac:TaxTotal'', ''cac:TaxSubtotal'', ''cbc:TaxableAmount''] ?doc = [''0.00'']"
    "texts_at [''cac:TaxTotal'', ''cac:TaxSubtotal'', ''cbc:TaxAmount''] ?doc = [''0.00'']"
    "texts_at [''cac:TaxTotal'', ''cac:TaxSubtotal'', ''cac:TaxCategory'', ''cbc:ID''] ?doc = [''S'']"
    "texts_at [''cac:TaxTotal'', ''cac:TaxSubtotal'', ''cac:TaxCategory'', ''cbc:Percent''] ?doc =
       [''0.00'']"
    unfolding texts_at_Cons_single [OF tt]
    by (simp_all add: tax_total_xml_def texts_at_def children_named_def default_subtotal_xml_def)
  from doc p(1) g t1 t2 s t3 show ?thesis
    by blast
qed

theorem C6_empty_lines_witness:
  "result_texts [''cac:TaxTotal'', ''cbc:TaxAmount'']
     (buildInvoiceXml plain_modules (Some (plain_input []))) = [''0.00''] \<and>
   result_texts [''cac:LegalMonetaryTotal'', ''cbc:PayableAmount'']
     (buildInvoiceXml plain_modules (Some (plain_input []))) = [''0.00''] \<and>
   result_texts [''cac:TaxTotal'', ''cac:TaxSubtotal'', ''cac:TaxCategory'', ''cbc:ID'']
     (buildInvoiceXml plain_modules (Some (plain_input []))) = [''S'']"
proof -
  have h1: "validateInvoiceInput (Some (plain_input [])) = Inr ()"
    by (simp add: validateInvoiceInput_def validateParty_def validateAddress_def
          plain_input_def plain_party_def plain_address_def blank_def js_eval)
  have h2: "lines (plain_input []) = Some []"
    by (simp add: plain_input_def)
  from C6_empty_lines [OF h1 h2, of plain_modules] show ?thesis
    by (auto simp: result_texts_def)
qed


section \<open>Tax groups and tax categories\<close>

lemma first_seen_Nil: "first_seen [] = []"
  by (simp add: first_seen_def)

lemma first_seen_snoc:
  "first_seen (xs @ [x]) = (if x \<in> set xs then first_seen xs else first_seen xs @ [x])"
  by (simp add: first_seen_def)

lemma set_first_seen: "set (first_seen xs) = set xs"
  by (simp add: first_seen_def)

lemma distinct_first_seen: "distinct (first_seen xs)"
  by (simp add: first_seen_def)

lemma rounded_sum_snoc:
  "xs \<noteq> [] \<Longrightarrow>
   rounded_sum (xs @ [x]) = parseFloat (toFixed2 (js_add (rounded_sum xs) x))"
  by (cases xs) simp_all

lemma map_modify_distinct:
  "distinct ks \<Longrightarrow>
   map_modify k f (map (\<lambda>k'. (k', h k')) ks) =
   map (\<lambda>k'. (k', if k' = k then f (h k') else h k')) ks"
  by (induction ks) auto

lemma group_line_key:
  "group_line vat M l =
     (if map_has M (line_key vat l) then
        map_modify (line_key vat l)
          (\<lambda>g. g\<lparr>taxableAmount :=
                    parseFloat (toFixed2 (js_add (TaxGroup.taxableAmount g)
                      (calculateLineExtension l))),
                  taxAmount :=
                    parseFloat (toFixed2 (js_add (TaxGroup.taxAmount g) (line_tax_amount l)))\<rparr>) M
      else M @ [(line_key vat l,
        \<lparr>categoryId = fst (line_key vat l), percent = snd (line_key vat l),
         taxableAmount = calculateLineExtension l, taxAmount = line_tax_amount l,
         exemptionReasonCode = snd (spec_tax_category vat (taxPercent_or_0 l))\<rparr>)])"
  by (simp add: group_line_def line_key_def spec_tax_category_def line_tax_amount_def
        map_set_def Let_def)

lemma group_of_other:
  "line_key vat l \<noteq> k \<Longrightarrow> group_of vat (ls @ [l]) k = group_of vat ls k"
  by (simp add: group_of_def)

lemma group_of_same:
  assumes "line_key vat l \<in> set (map (line_key vat) ls)"
  shows "group_of vat (ls @ [l]) (line_key vat l) =
     (group_of vat ls (line_key vat l))
       \<lparr>taxableAmount :=
          parseFloat (toFixed2 (js_add (TaxGroup.taxableAmount (group_of vat ls (line_key vat l)))
            (calculateLineExtension l))),
        taxAmount :=
          parseFloat (toFixed2 (js_add (TaxGroup.taxAmount (group_of vat ls (line_key vat l)))
            (line_tax_amount l)))\<rparr>"
proof -
  from assms have "filter (\<lambda>l'. line_key vat l' = line_key vat l) ls \<noteq> []"
    by (auto simp: filter_empty_conv)
  then show ?thesis
    by (simp add: group_of_def rounded_sum_snoc)
qed

lemma group_of_new:
  assumes "line_key vat l \<notin> set (map (line_key vat) ls)"
  shows "group_of vat (ls @ [l]) (line_key vat l) =
     \<lparr>categoryId = fst (line_key vat l), percent = snd (line_key vat l),
      taxableAmount = calculateLineExtension l, taxAmount = line_tax_amount l,
      exemptionReasonCode = snd (spec_tax_category vat (taxPercent_or_0 l))\<rparr>"
proof -
  from assms have "\<forall>l'\<in>set ls. line_key vat l' \<noteq> line_key vat l"
    by (metis image_eqI list.set_map)
  then have "filter (\<lambda>l'. line_key vat l' = line_key vat l) ls = []"
    by (simp add: filter_empty_conv)
  then show ?thesis
    by (simp add: group_of_def line_key_def)
qed

lemma group_map:
  "foldl (group_line vat) [] ls =
   map (\<lambda>k. (k, group_of vat ls k)) (first_seen (map (line_key vat) ls))"
proof (induction ls rule: rev_induct)
  case Nil
  show ?case
    by (simp add: first_seen_Nil)
next
  case (snoc l ls)
  let ?k = "line_key vat l"
  let ?ks = "first_seen (map (line_key vat) ls)"
  let ?M = "map (\<lambda>k. (k, group_of vat ls k)) ?ks"
  have has: "map_has ?M ?k \<longleftrightarrow> ?k \<in> set (map (line_key vat) ls)"
    by (simp add: map_has_def comp_def set_first_seen)
  have step: "foldl (group_line vat) [] (ls @ [l]) = group_line vat ?M l"
    by (simp only: foldl_append foldl_Cons foldl_Nil snoc.IH)
  show ?case
  proof (cases "?k \<in> set (map (line_key vat) ls)")
    case True
    have ks: "first_seen (map (line_key vat) (ls @ [l])) = ?ks"
      using True by (simp add: first_seen_snoc del: set_map)
    have "group_line vat ?M l =
        map (\<lambda>k'. (k', if k' = ?k then group_of vat (ls @ [l]) ?k else group_of vat ls k')) ?ks"
      unfolding group_line_key using has True
      by (simp add: map_modify_distinct [OF distinct_first_seen]
            group_of_same [OF True, symmetric] del: set_map)
    also have "\<dots> = map (\<lambda>k'. (k', group_of vat (ls @ [l]) k')) ?ks"
      by (rule map_cong) (auto simp: group_of_other)
    finally show ?thesis
      unfolding step ks .
  next
    case False
    have ks: "first_seen (map (line_key vat) (ls @ [l])) = ?ks @ [?k]"
      using False by (simp add: first_seen_snoc del: set_map)
    have a: "group_line vat ?M l = ?M @ [(?k, group_of vat (ls @ [l]) ?k)]"
      unfolding group_line_key using has False
      by (simp add: group_of_new [OF False] del: set_map)
    have b: "?M = map (\<lambda>k'. (k', group_of vat (ls @ [l]) k')) ?ks"
    proof (rule map_cong)
      fix k' assume "k' \<in> set ?ks"
      with False have "?k \<noteq> k'"
        unfolding set_first_seen by metis
      then show "(k', group_of vat ls k') = (k', group_of vat (ls @ [l]) k')"
        by (simp add: group_of_other)
    qed (rule refl)
    show ?thesis
      unfolding step ks a using b by simp
  qed
qed

lemma groupLinesByTax_group_of:
  "groupLinesByTax ls vat = map (group_of vat ls) (first_seen (map (line_key vat) ls))"
  by (simp add: groupLinesByTax_def map_values_def group_map comp_def)



lemma texts_at_Cons:
  "texts_at (n # ns) x = concat (map (texts_at ns) (children_named n x))"
  by (simp add: texts_at_def [abs_def] map_concat comp_def)

lemma texts_at_Nil: "texts_at [] x = [text_of x]"
  by (simp add: texts_at_def)

lemma filter_all_invoice_lines_xml:
  "filter (\<lambda>c. elem_name c = Some ''cac:InvoiceLine'') (invoice_lines_xml m cur v ls i) =
   invoice_lines_xml m cur v ls i"
  by (simp add: filter_id_conv invoice_lines_xml_names)

lemma children_named_invoice_line:
  "children_named ''cac:InvoiceLine''
     (invoice_document m inp suppl cust ls invNum issue sa sn sc ca cn cc) =
   invoice_lines_xml m (invoice_currency m inp) (isVatPayer suppl = Some True) ls 0"
  by (simp add: invoice_document_def invoice_header_xml_def party_xml_def children_named_def
        filter_all_invoice_lines_xml filter_payment_means_xml tax_total_xml_def
        legal_monetary_total_xml_def)

lemma filter_description:
  "filter (\<lambda>c. elem_name c = Some n)
     (case d of None \<Rightarrow> []
      | Some t \<Rightarrow> if t = [] then [] else [Element ''cbc:Description'' [] [Text t]]) =
   (if n = ''cbc:Description'' then
      (case d of None \<Rightarrow> []
       | Some t \<Rightarrow> if t = [] then [] else [Element ''cbc:Description'' [] [Text t]])
    else [])"
  by (simp split: option.split)

lemma filter_exemption:
  "filter (\<lambda>c. elem_name c = Some n)
     (case e of None \<Rightarrow> []
      | Some t \<Rightarrow> if t = [] then []
          else [Element ''cbc:TaxExemptionReasonCode'' [] [Text t]]) =
   (if n = ''cbc:TaxExemptionReasonCode'' then
      (case e of None \<Rightarrow> []
       | Some t \<Rightarrow> if t = [] then []
           else [Element ''cbc:TaxExemptionReasonCode'' [] [Text t]])
    else [])"
  by (simp split: option.split)

lemma line_category_text:
  "texts_at [''cac:Item'', ''cac:ClassifiedTaxCategory'', ''cbc:ID'']
     (invoice_line_xml m cur vat l i) = [fst (spec_tax_category vat (taxPercent_or_0 l))]"
  by (simp add: invoice_line_xml_def texts_at_def children_named_def spec_tax_category_def
        filter_description)

lemma lines_category_texts:
  "concat (map (texts_at [''cac:Item'', ''cac:ClassifiedTaxCategory'', ''cbc:ID''])
     (invoice_lines_xml m cur vat ls i)) =
   map (\<lambda>l. fst (spec_tax_category vat (taxPercent_or_0 l))) ls"
  by (induction ls arbitrary: i) (simp_all add: line_category_text)

lemma subtotal_category_text:
  "texts_at [''cac:TaxCategory'', ''cbc:ID''] (tax_subtotal_xml cur g) = [categoryId g]"
  by (simp add: tax_subtotal_xml_def texts_at_def children_named_def filter_exemption)

lemma subtotal_exemption_text:
  "texts_at [''cac:TaxCategory'', ''cbc:TaxExemptionReasonCode''] (tax_subtotal_xml cur g) =
     (case exemptionReasonCode g of None \<Rightarrow> [] | Some c \<Rightarrow> if c = [] then [] else [c])"
  by (simp add: tax_subtotal_xml_def texts_at_def children_named_def filter_exemption
        split: option.split)

lemma children_named_subtotals:
  "children_named ''cac:TaxSubtotal'' (tax_total_xml cur gs) =
     (if gs = [] then [default_subtotal_xml cur] else map (tax_subtotal_xml cur) gs)"
  by (simp add: tax_total_xml_def children_named_def tax_subtotal_xml_def
        default_subtotal_xml_def filter_id_conv)

lemma group_category:
  assumes "g \<in> set (groupLinesByTax ls vat)"
  shows "(categoryId g, exemptionReasonCode g) = spec_tax_category vat (percent g)"
proof -
  from assms obtain k where k: "k \<in> set (map (line_key vat) ls)" "g = group_of vat ls k"
    unfolding groupLinesByTax_group_of by (auto simp: set_first_seen)
  then obtain l where "k = line_key vat l"
    by auto
  with k(2) show ?thesis
    by (simp add: group_of_def line_key_def spec_tax_category_def)
qed

lemma groupLinesByTax_Nil_iff: "groupLinesByTax ls vat = [] \<longleftrightarrow> ls = []"
  unfolding groupLinesByTax_group_of
  by (metis list.map_disc_iff set_empty set_first_seen)

lemma invoice_groups_Nil_iff: "invoice_groups suppl ls = [] \<longleftrightarrow> ls = []"
  by (simp add: invoice_groups_def groupLinesByTax_Nil_iff)

lemma invoice_groups_set:
  "set (invoice_groups suppl ls) = set (groupLinesByTax ls (isVatPayer suppl = Some True))"
  by (cases ls) (simp_all add: invoice_groups_def groupLinesByTax_def map_values_def)

text \<open>
  C3. In the document of a valid input the category of each line, in its
  \<^verbatim>\<open>cac:ClassifiedTaxCategory\<close>, is the one selected in the order of the
  specification for its percent (O when the supplier is not a VAT payer, otherwise
  S above zero, otherwise Z); each tax group has the category and the exemption
  reason code selected for its percent, so code VATEX-EU-O exactly with category O;
  and the tax subtotals carry the categories of the groups, and code VATEX-EU-O in
  each of them when the supplier is not a VAT payer.
\<close>

theorem C3_tax_category:
  assumes "validateInvoiceInput (Some inp) = Inr ()"
    and "supplier inp = Some suppl"
    and "lines inp = Some ls"
    and "vat = (isVatPayer suppl = Some True)"
  shows "\<exists>doc.
     buildInvoiceXml m (Some inp) = Inr doc \<and>
     texts_at [''cac:InvoiceLine'', ''cac:Item'', ''cac:ClassifiedTaxCategory'', ''cbc:ID''] doc =
       map (\<lambda>l. fst (spec_tax_category vat (taxPercent_or_0 l))) ls \<and>
     map (\<lambda>g. (categoryId g, exemptionReasonCode g)) (invoice_groups suppl ls) =
       map (\<lambda>g. spec_tax_category vat (percent g)) (invoice_groups suppl ls) \<and>
     map (\<lambda>g. (categoryId g, percent g)) (invoice_groups suppl ls) =
       first_seen (map (line_key vat) ls) \<and>
     texts_at [''cac:TaxTotal'', ''cac:TaxSubtotal'', ''cac:TaxCategory'', ''cbc:ID''] doc =
       (if ls = [] then [''S''] else map categoryId (invoice_groups suppl ls)) \<and>
     texts_at [''cac:TaxTotal'', ''cac:TaxSubtotal'', ''cac:TaxCategory'',
         ''cbc:TaxExemptionReasonCode''] doc =
       (if vat then [] else map (\<lambda>g. ''VATEX-EU-O'') (invoice_groups suppl ls))"
proof -
  from assms(1) obtain suppl' cust ls' invNum issue sa sn sc ca cn cc where
    p: "supplier inp = Some suppl'" "customer inp = Some cust" "lines inp = Some ls'"
    "invoiceNumber inp = Some invNum" "issueDate inp = Some issue"
    "address suppl' = Some sa" "registrationName suppl' = Some sn" "companyId suppl' = Some sc"
    "address cust = Some ca" "registrationName cust = Some cn" "companyId cust = Some cc"
    "\<forall>l\<in>set ls'. name l \<noteq> None"
    by (rule valid_input_present)
  from p(1,3) assms(2,3) have eq: "suppl' = suppl" "ls' = ls"
    by simp_all
  let ?doc = "invoice_document m inp suppl cust ls invNum issue sa sn sc ca cn cc"
  let ?cur = "invoice_currency m inp"
  let ?gs = "invoice_groups suppl ls"
  have doc: "buildInvoiceXml m (Some inp) = Inr ?doc"
    using assms(1) p unfolding eq by (rule buildInvoiceXml_document)
  have tt: "select [''cac:TaxTotal''] ?doc = [tax_total_xml ?cur ?gs]"
    by (rule select_tax_total)
  have l: "texts_at [''cac:InvoiceLine'', ''cac:Item'', ''cac:ClassifiedTaxCategory'', ''cbc:ID'']
      ?doc = map (\<lambda>l. fst (spec_tax_category vat (taxPercent_or_0 l))) ls"
    unfolding texts_at_Cons [of "''cac:InvoiceLine''"] children_named_invoice_line assms(4)
    by (rule lines_category_texts)
  have c: "map (\<lambda>g. (categoryId g, exemptionReasonCode g)) ?gs =
      map (\<lambda>g. spec_tax_category vat (percent g)) ?gs"
    unfolding assms(4) by (rule map_cong) (simp_all add: invoice_groups_set group_category)
  have k: "map (\<lambda>g. (categoryId g, percent g)) ?gs = first_seen (map (line_key vat) ls)"
  proof (cases "ls = []")
    case True
    then show ?thesis
      by (simp add: invoice_groups_def first_seen_Nil)
  next
    case False
    then have "?gs = groupLinesByTax ls vat"
      by (simp add: invoice_groups_def assms(4))
    then show ?thesis
      by (simp add: groupLinesByTax_group_of comp_def group_of_def)
  qed
  have s: "texts_at [''cac:TaxTotal'', ''cac:TaxSubtotal'', ''cac:TaxCategory'', ''cbc:ID''] ?doc =
      (if ls = [] then [''S''] else map categoryId ?gs)"
    unfolding texts_at_Cons_single [OF tt] texts_at_Cons [of "''cac:TaxSubtotal''"]
      children_named_subtotals invoice_groups_Nil_iff
    by (simp add: comp_def subtotal_category_text)
      (simp add: texts_at_def children_named_def default_subtotal_xml_def)
  have e: "texts_at [''cac:TaxTotal'', ''cac:TaxSubtotal'', ''cac:TaxCategory'',
      ''cbc:TaxExemptionReasonCode''] ?doc =
      (if vat then [] else map (\<lambda>g. ''VATEX-EU-O'') ?gs)"
  proof -
    have x: "map (texts_at [''cac:TaxCategory'', ''cbc:TaxExemptionReasonCode''])
        (map (tax_subtotal_xml ?cur) ?gs) =
        map (\<lambda>g. if vat then [] else [''VATEX-EU-O'']) ?gs"
      unfolding map_map comp_def subtotal_exemption_text
    proof (rule map_cong)
      fix g assume "g \<in> set ?gs"
      then have "(categoryId g, exemptionReasonCode g) = spec_tax_category vat (percent g)"
        unfolding assms(4) by (simp add: invoice_groups_set group_category)
      then show "(case exemptionReasonCode g of None \<Rightarrow> []
          | Some c \<Rightarrow> if c = [] then [] else [c]) = (if vat then [] else [''VATEX-EU-O''])"
        by (auto simp: spec_tax_category_def split: if_splits)
    qed (rule refl)
    have y: "texts_at [''cac:TaxCategory'', ''cbc:TaxExemptionReasonCode'']
        (default_subtotal_xml ?cur) = []"
      by (simp add: texts_at_def children_named_def default_subtotal_xml_def)
    show ?thesis
      unfolding texts_at_Cons_single [OF tt] texts_at_Cons [of "''cac:TaxSubtotal''"]
        children_named_subtotals
    proof (cases "?gs = []")
      case True
      then show "concat (map (texts_at [''cac:TaxCategory'', ''cbc:TaxExemptionReasonCode''])
          (if ?gs = [] then [default_subtotal_xml ?cur] else map (tax_subtotal_xml ?cur) ?gs)) =
          (if vat then [] else map (\<lambda>g. ''VATEX-EU-O'') ?gs)"
        by (simp add: y)
    next
      case False
      then show "concat (map (texts_at [''cac:TaxCategory'', ''cbc:TaxExemptionReasonCode''])
          (if ?gs = [] then [default_subtotal_xml ?cur] else map (tax_subtotal_xml ?cur) ?gs)) =
          (if vat then [] else map (\<lambda>g. ''VATEX-EU-O'') ?gs)"
        unfolding if_not_P [OF False] x
        by (simp add: concat_map_singleton)
    qed
  qed
  show ?thesis
    by (rule exI [of _ ?doc]) (intro conjI doc l c k s e)
qed

theorem C3_tax_category_witness:
  "result_texts [''cac:InvoiceLine'', ''cac:Item'', ''cac:ClassifiedTaxCategory'', ''cbc:ID'']
     (buildInvoiceXml plain_modules
        (Some ((plain_input three_lines)
           \<lparr>supplier := Some (plain_party\<lparr>isVatPayer := None\<rparr>)\<rparr>))) = [''O'', ''O'', ''O''] \<and>
   result_texts [''cac:TaxTotal'', ''cac:TaxSubtotal'', ''cac:TaxCategory'',
       ''cbc:TaxExemptionReasonCode'']
     (buildInvoiceXml plain_modules
        (Some ((plain_input three_lines)
           \<lparr>supplier := Some (plain_party\<lparr>isVatPayer := None\<rparr>)\<rparr>))) =
     [''VATEX-EU-O'', ''VATEX-EU-O'']"
proof -
  let ?suppl = "plain_party\<lparr>isVatPayer := None\<rparr>"
  let ?inp = "(plain_input three_lines)\<lparr>supplier := Some ?suppl\<rparr>"
  have h1: "validateInvoiceInput (Some ?inp) = Inr ()"
    by (simp add: validateInvoiceInput_def validateParty_def validateAddress_def
          validateLine_def plain_input_def plain_party_def plain_address_def three_lines_def
          example_line_def blank_def js_eval)
  have h2: "supplier ?inp = Some ?suppl"
    by simp
  have h3: "lines ?inp = Some three_lines"
    by (simp add: plain_input_def)
  have h4: "False = (isVatPayer ?suppl = Some True)"
    by simp
  have k: "map (line_key False) three_lines =
      [(''O'', Num 19), (''O'', Num 9), (''O'', Num 19)]"
    by (simp add: three_lines_def example_line_def line_key_def spec_tax_category_def
          taxPercent_or_0_def js_eval)
  have f: "first_seen [(''O'', Num 19), (''O'', Num 9), (''O'', Num 19)] =
      [(''O'', Num 19), (''O'', Num 9)]"
    by (simp add: first_seen_def)
  have c: "map (\<lambda>l. fst (spec_tax_category False (taxPercent_or_0 l))) three_lines =
      [''O'', ''O'', ''O'']"
    by (simp add: three_lines_def spec_tax_category_def)
  from C3_tax_category [OF h1 h2 h3 h4, of plain_modules] show ?thesis
  proof (elim exE conjE)
    fix doc
    assume d: "buildInvoiceXml plain_modules (Some ?inp) = Inr doc"
      "texts_at [''cac:InvoiceLine'', ''cac:Item'', ''cac:ClassifiedTaxCategory'', ''cbc:ID'']
         doc = map (\<lambda>l. fst (spec_tax_category False (taxPercent_or_0 l))) three_lines"
      "map (\<lambda>g. (categoryId g, percent g)) (invoice_groups ?suppl three_lines) =
         first_seen (map (line_key False) three_lines)"
      "texts_at [''cac:TaxTotal'', ''cac:TaxSubtotal'', ''cac:TaxCategory'',
           ''cbc:TaxExemptionReasonCode''] doc =
         (if False then []
          else map (\<lambda>g. ''VATEX-EU-O'') (invoice_groups ?suppl three_lines))"
    from arg_cong [OF d(3), of length]
    have len: "length (invoice_groups ?suppl three_lines) = Suc (Suc 0)"
      unfolding k f by simp
    have r: "map (\<lambda>g. ''VATEX-EU-O'') (invoice_groups ?suppl three_lines) =
        replicate (Suc (Suc 0)) ''VATEX-EU-O''"
      unfolding len [symmetric] by (rule map_replicate_const)
    show ?thesis
      unfolding result_texts_def d(1) sum.case d(2) d(4) c if_False r by simp
  qed
qed

section \<open>The amounts of a document\<close>

lemma line_extension_text:
  "texts_at [''cbc:LineExtensionAmount''] (invoice_line_xml m cur vat l i) =
     [toFixed2 (calculateLineExtension l)]"
  by (simp add: invoice_line_xml_def texts_at_def children_named_def)

lemma lines_extension_texts:
  "concat (map (texts_at [''cbc:LineExtensionAmount'']) (invoice_lines_xml m cur vat ls i)) =
   map (\<lambda>l. toFixed2 (calculateLineExtension l)) ls"
  by (induction ls arbitrary: i) (simp_all add: line_extension_text)

lemma subtotal_tax_amount_text:
  "texts_at [''cbc:TaxAmount''] (tax_subtotal_xml cur g) = [toFixed2 (TaxGroup.taxAmount g)]"
  by (simp add: tax_subtotal_xml_def texts_at_def children_named_def)

lemma tax_total_amount_text:
  "texts_at [''cbc:TaxAmount''] (tax_total_xml cur gs) = [toFixed2 (totalTaxAmount gs)]"
  by (simp add: tax_total_xml_def texts_at_def children_named_def tax_subtotal_xml_def
        default_subtotal_xml_def filter_empty_conv)

text \<open>The amounts in the document of a valid input.\<close>

lemma document_amounts:
  assumes "validateInvoiceInput (Some inp) = Inr ()"
    and "supplier inp = Some suppl"
    and "lines inp = Some ls"
  shows "result_texts [''cac:InvoiceLine'', ''cbc:LineExtensionAmount'']
      (buildInvoiceXml m (Some inp)) = map (\<lambda>l. toFixed2 (calculateLineExtension l)) ls"
    and "result_texts [''cac:TaxTotal'', ''cac:TaxSubtotal'', ''cbc:TaxAmount'']
      (buildInvoiceXml m (Some inp)) =
      (if ls = [] then [''0.00'']
       else map (\<lambda>g. toFixed2 (TaxGroup.taxAmount g)) (invoice_groups suppl ls))"
    and "result_texts [''cac:TaxTotal'', ''cbc:TaxAmount''] (buildInvoiceXml m (Some inp)) =
      [toFixed2 (totalTaxAmount (invoice_groups suppl ls))]"
    and "result_texts [''cac:LegalMonetaryTotal'', ''cbc:LineExtensionAmount'']
      (buildInvoiceXml m (Some inp)) = [toFixed2 (totalTaxableAmount (invoice_groups suppl ls))]"
    and "result_texts [''cac:LegalMonetaryTotal'', ''cbc:TaxExclusiveAmount'']
      (buildInvoiceXml m (Some inp)) = [toFixed2 (totalTaxableAmount (invoice_groups suppl ls))]"
    and "result_texts [''cac:LegalMonetaryTotal'', ''cbc:TaxInclusiveAmount'']
      (buildInvoiceXml m (Some inp)) = [toFixed2 (grandTotal (invoice_groups suppl ls))]"
    and "result_texts [''cac:LegalMonetaryTotal'', ''cbc:PayableAmount'']
      (buildInvoiceXml m (Some inp)) = [toFixed2 (grandTotal (invoice_groups suppl ls))]"
proof -
  from assms(1) obtain suppl' cust ls' invNum issue sa sn sc ca cn cc where
    p: "supplier inp = Some suppl'" "customer inp = Some cust" "lines inp = Some ls'"
    "invoiceNumber inp = Some invNum" "issueDate inp = Some issue"
    "address suppl' = Some sa" "registrationName suppl' = Some sn" "companyId suppl' = Some sc"
    "address cust = Some ca" "registrationName cust = Some cn" "companyId cust = Some cc"
    "\<forall>l\<in>set ls'. name l \<noteq> None"
    by (rule valid_input_present)
  from p(1,3) assms(2,3) have eq: "suppl' = suppl" "ls' = ls"
    by simp_all
  let ?doc = "invoice_document m inp suppl cust ls invNum issue sa sn sc ca cn cc"
  let ?cur = "invoice_currency m inp"
  let ?gs = "invoice_groups suppl ls"
  have doc: "buildInvoiceXml m (Some inp) = Inr ?doc"
    using assms(1) p unfolding eq by (rule buildInvoiceXml_document)
  have tt: "select [''cac:TaxTotal''] ?doc = [tax_total_xml ?cur ?gs]"
    by (rule select_tax_total)
  have lm: "select [''cac:LegalMonetaryTotal''] ?doc = [legal_monetary_total_xml ?cur ?gs]"
    by (rule select_legal_monetary_total)
  show "result_texts [''cac:InvoiceLine'', ''cbc:LineExtensionAmount'']
      (buildInvoiceXml m (Some inp)) = map (\<lambda>l. toFixed2 (calculateLineExtension l)) ls"
    unfolding doc result_texts_def sum.case texts_at_Cons [of "''cac:InvoiceLine''"]
      children_named_invoice_line
    by (rule lines_extension_texts)
  show "result_texts [''cac:TaxTotal'', ''cac:TaxSubtotal'', ''cbc:TaxAmount'']
      (buildInvoiceXml m (Some inp)) =
      (if ls = [] then [''0.00'']
       else map (\<lambda>g. toFixed2 (TaxGroup.taxAmount g)) (invoice_groups suppl ls))"
    unfolding doc result_texts_def sum.case texts_at_Cons_single [OF tt]
      texts_at_Cons [of "''cac:TaxSubtotal''"] children_named_subtotals invoice_groups_Nil_iff
    by (simp add: comp_def subtotal_tax_amount_text)
      (simp add: texts_at_def children_named_def default_subtotal_xml_def)
  show "result_texts [''cac:TaxTotal'', ''cbc:TaxAmount''] (buildInvoiceXml m (Some inp)) =
      [toFixed2 (totalTaxAmount (invoice_groups suppl ls))]"
    unfolding doc result_texts_def sum.case texts_at_Cons_single [OF tt]
    by (rule tax_total_amount_text)
  show "result_texts [''cac:LegalMonetaryTotal'', ''cbc:LineExtensionAmount'']
      (buildInvoiceXml m (Some inp)) = [toFixed2 (totalTaxableAmount (invoice_groups suppl ls))]"
    "result_texts [''cac:LegalMonetaryTotal'', ''cbc:TaxExclusiveAmount'']
      (buildInvoiceXml m (Some inp)) = [toFixed2 (totalTaxableAmount (invoice_groups suppl ls))]"
    "result_texts [''cac:LegalMonetaryTotal'', ''cbc:TaxInclusiveAmount'']
      (buildInvoiceXml m (Some inp)) = [toFixed2 (grandTotal (invoice_groups suppl ls))]"
    "result_texts [''cac:LegalMonetaryTotal'', ''cbc:PayableAmount'']
      (buildInvoiceXml m (Some inp)) = [toFixed2 (grandTotal (invoice_groups suppl ls))]"
    unfolding doc result_texts_def sum.case texts_at_Cons_single [OF lm]
    by (rule legal_monetary_total_texts)+
qed

lemma plain_input_fields:
  "supplier (plain_input ls) = Some plain_party"
  "lines (plain_input ls) = Some ls"
  by (simp_all add: plain_input_def)

lemma plain_groups_single:
  "invoice_groups plain_party [l] = groupLinesByTax [l] True"
  by (simp add: invoice_groups_def plain_party_def)

lemma huge_line_texts:
  "toFixed2 (totalTaxableAmount (groupLinesByTax [huge_line] b)) = ''1e+21''"
  "toFixed2 (grandTotal (groupLinesByTax [huge_line] b)) = ''1e+21''"
  by (simp_all add: groupLinesByTax_single totalTaxableAmount_def totalTaxAmount_def
        grandTotal_def huge_line_def calculateLineExtension_def taxPercent_or_0_def js_eval
        cong: let_weak_cong)

lemma two_rates_groups:
  "map (\<lambda>g. (categoryId g, toFixed2 (percent g), toFixed2 (TaxGroup.taxableAmount g),
          toFixed2 (TaxGroup.taxAmount g))) (groupLinesByTax two_rates True) =
     [(''S'', ''19.00'', ''100.00'', ''19.00''), (''S'', ''9.00'', ''100.00'', ''9.00'')]"
  "toFixed2 (totalTaxableAmount (groupLinesByTax two_rates True)) = ''200.00''"
  "toFixed2 (totalTaxAmount (groupLinesByTax two_rates True)) = ''28.00''"
  "toFixed2 (grandTotal (groupLinesByTax two_rates True)) = ''228.00''"
proof -
  have k: "map (line_key True) two_rates = [(''S'', Num 19), (''S'', Num 9)]"
    by (simp add: two_rates_def line_key_def spec_tax_category_def taxPercent_or_0_def js_eval)
  have f: "first_seen [(''S'', Num 19), (''S'', Num 9)] = [(''S'', Num 19), (''S'', Num 9)]"
    by (simp add: first_seen_def)
  have g: "groupLinesByTax two_rates True =
      [\<lparr>categoryId = ''S'', percent = Num 19, taxableAmount = Num 100, taxAmount = Num 19,
        exemptionReasonCode = None\<rparr>,
       \<lparr>categoryId = ''S'', percent = Num 9, taxableAmount = Num 100, taxAmount = Num 9,
        exemptionReasonCode = None\<rparr>]"
    unfolding groupLinesByTax_group_of k f
    by (simp add: group_of_def two_rates_def line_key_def spec_tax_category_def
          line_tax_amount_def calculateLineExtension_def taxPercent_or_0_def js_eval
          cong: let_weak_cong)
  show "map (\<lambda>g. (categoryId g, toFixed2 (percent g), toFixed2 (TaxGroup.taxableAmount g),
          toFixed2 (TaxGroup.taxAmount g))) (groupLinesByTax two_rates True) =
     [(''S'', ''19.00'', ''100.00'', ''19.00''), (''S'', ''9.00'', ''100.00'', ''9.00'')]"
    "toFixed2 (totalTaxableAmount (groupLinesByTax two_rates True)) = ''200.00''"
    "toFixed2 (totalTaxAmount (groupLinesByTax two_rates True)) = ''28.00''"
    "toFixed2 (grandTotal (groupLinesByTax two_rates True)) = ''228.00''"
    unfolding g
    by (simp_all add: totalTaxableAmount_def totalTaxAmount_def grandTotal_def js_eval
          cong: let_weak_cong)
qed

lemma valid_plain_inputs:
  "validateInvoiceInput (Some (plain_input [huge_line])) = Inr ()"
  "validateInvoiceInput (Some (plain_input [one_at_four_fifty])) = Inr ()"
  "validateInvoiceInput (Some (plain_input [half_at_three_cents])) = Inr ()"
  "validateInvoiceInput (Some (plain_input two_rates)) = Inr ()"
  by (simp_all add: validateInvoiceInput_def validateParty_def validateAddress_def
        validateLine_def plain_input_def plain_party_def plain_address_def huge_line_def
        one_at_four_fifty_def half_at_three_cents_def two_rates_def blank_def js_eval)

text \<open>
  The specification's example of two rates: the totals are the sums over the two
  groups, 200.00 and 28.00, and the grand total is 228.00.
\<close>

lemma two_rates_document:
  "result_texts [''cac:TaxTotal'', ''cac:TaxSubtotal'', ''cbc:TaxAmount'']
     (buildInvoiceXml plain_modules (Some (plain_input two_rates))) = [''19.00'', ''9.00'']"
  "result_texts [''cac:TaxTotal'', ''cbc:TaxAmount'']
     (buildInvoiceXml plain_modules (Some (plain_input two_rates))) = [''28.00'']"
  "result_texts [''cac:LegalMonetaryTotal'', ''cbc:LineExtensionAmount'']
     (buildInvoiceXml plain_modules (Some (plain_input two_rates))) = [''200.00'']"
  "result_texts [''cac:LegalMonetaryTotal'', ''cbc:TaxExclusiveAmount'']
     (buildInvoiceXml plain_modules (Some (plain_input two_rates))) = [''200.00'']"
  "result_texts [''cac:LegalMonetaryTotal'', ''cbc:TaxInclusiveAmount'']
     (buildInvoiceXml plain_modules (Some (plain_input two_rates))) = [''228.00'']"
  "result_texts [''cac:LegalMonetaryTotal'', ''cbc:PayableAmount'']
     (buildInvoiceXml plain_modules (Some (plain_input two_rates))) = [''228.00'']"
proof -
  have g: "invoice_groups plain_party two_rates = groupLinesByTax two_rates True"
    by (simp add: invoice_groups_def plain_party_def two_rates_def)
  have n: "two_rates \<noteq> []"
    by (simp add: two_rates_def)
  note d = document_amounts [OF valid_plain_inputs(4) plain_input_fields, of plain_modules]
  from two_rates_groups(1)
  have t: "map (\<lambda>g. toFixed2 (TaxGroup.taxAmount g)) (groupLinesByTax two_rates True) =
      [''19.00'', ''9.00'']"
    by (auto simp: map_eq_Cons_conv)
  show "result_texts [''cac:TaxTotal'', ''cac:TaxSubtotal'', ''cbc:TaxAmount'']
     (buildInvoiceXml plain_modules (Some (plain_input two_rates))) = [''19.00'', ''9.00'']"
    unfolding d(2) g if_not_P [OF n] by (rule t)
  show "result_texts [''cac:TaxTotal'', ''cbc:TaxAmount'']
     (buildInvoiceXml plain_modules (Some (plain_input two_rates))) = [''28.00'']"
    unfolding d(3) g two_rates_groups ..
  show "result_texts [''cac:LegalMonetaryTotal'', ''cbc:LineExtensionAmount'']
     (buildInvoiceXml plain_modules (Some (plain_input two_rates))) = [''200.00'']"
    unfolding d(4) g two_rates_groups ..
  show "result_texts [''cac:LegalMonetaryTotal'', ''cbc:TaxExclusiveAmount'']
     (buildInvoiceXml plain_modules (Some (plain_input two_rates))) = [''200.00'']"
    unfolding d(5) g two_rates_groups ..
  show "result_texts [''cac:LegalMonetaryTotal'', ''cbc:TaxInclusiveAmount'']
     (buildInvoiceXml plain_modules (Some (plain_input two_rates))) = [''228.00'']"
    unfolding d(6) g two_rates_groups ..
  show "result_texts [''cac:LegalMonetaryTotal'', ''cbc:PayableAmount'']
     (buildInvoiceXml plain_modules (Some (plain_input two_rates))) = [''228.00'']"
    unfolding d(7) g two_rates_groups ..
qed

text \<open>
  C4. The builder at a valid input with one line of \<open>10 ^ 21\<close> units at a price of 1
  and no tax: the total taxable amount and the grand total are \<open>10 ^ 21\<close>, and the
  four amounts of \<^verbatim>\<open>cac:LegalMonetaryTotal\<close> are rendered as \<^verbatim>\<open>1e+21\<close>, which is
  not a number with two decimal places.
\<close>

theorem C4_huge_total:
  "validateInvoiceInput (Some (plain_input [huge_line])) = Inr () \<and>
   result_texts [''cac:LegalMonetaryTotal'', ''cbc:LineExtensionAmount'']
     (buildInvoiceXml plain_modules (Some (plain_input [huge_line]))) = [''1e+21''] \<and>
   result_texts [''cac:LegalMonetaryTotal'', ''cbc:TaxExclusiveAmount'']
     (buildInvoiceXml plain_modules (Some (plain_input [huge_line]))) = [''1e+21''] \<and>
   result_texts [''cac:LegalMonetaryTotal'', ''cbc:TaxInclusiveAmount'']
     (buildInvoiceXml plain_modules (Some (plain_input [huge_line]))) = [''1e+21''] \<and>
   result_texts [''cac:LegalMonetaryTotal'', ''cbc:PayableAmount'']
     (buildInvoiceXml plain_modules (Some (plain_input [huge_line]))) = [''1e+21''] \<and>
   \<not> two_decimals ''1e+21''"
proof -
  note d = document_amounts [OF valid_plain_inputs(1) plain_input_fields, of plain_modules]
  have n: "\<not> two_decimals ''1e+21''"
    by (simp add: two_decimals_def is_digit_def)
  show ?thesis
    unfolding d(4,5,6,7) plain_groups_single huge_line_texts
    using valid_plain_inputs(1) n by simp
qed

text \<open>
  C1. The builder at a valid input with one line, one unit at 4.50 with 19
  percent: the line extension is 4.50 and the formula of the specification gives
  the tax amount 0.86 (0.855 rounded half up), but the tax amount rendered is 0.85.
  And at half a unit at 0.03: the formula gives the line extension 0.02 (0.015
  rounded half up), but the line extension rendered is 0.01.
\<close>

theorem C1_half_up_missed:
  "validateInvoiceInput (Some (plain_input [one_at_four_fifty])) = Inr () \<and>
   exact_line_extension 1 (9 / 2) = 9 / 2 \<and>
   exact_tax_amount (9 / 2) 19 = 86 / 100 \<and>
   result_texts [''cac:InvoiceLine'', ''cbc:LineExtensionAmount'']
     (buildInvoiceXml plain_modules (Some (plain_input [one_at_four_fifty]))) = [''4.50''] \<and>
   result_texts [''cac:TaxTotal'', ''cac:TaxSubtotal'', ''cbc:TaxAmount'']
     (buildInvoiceXml plain_modules (Some (plain_input [one_at_four_fifty]))) = [''0.85''] \<and>
   validateInvoiceInput (Some (plain_input [half_at_three_cents])) = Inr () \<and>
   unitPrice half_at_three_cents = parseFloat ''0.03'' \<and>
   exact_line_extension (1 / 2) (1080863910568919 / 36028797018963968) = 2 / 100 \<and>
   result_texts [''cac:InvoiceLine'', ''cbc:LineExtensionAmount'']
     (buildInvoiceXml plain_modules (Some (plain_input [half_at_three_cents]))) = [''0.01'']"
proof -
  note d = document_amounts [OF valid_plain_inputs(2) plain_input_fields, of plain_modules]
  note e = document_amounts [OF valid_plain_inputs(3) plain_input_fields, of plain_modules]
  have x: "exact_line_extension 1 (9 / 2) = 9 / 2"
    "exact_tax_amount (9 / 2) 19 = 86 / 100"
    "exact_line_extension (1 / 2) (1080863910568919 / 36028797018963968) = 2 / 100"
    by (simp_all add: exact_line_extension_def exact_tax_amount_def round_half_up2_def js_eval)
  have a: "toFixed2 (calculateLineExtension one_at_four_fifty) = ''4.50''"
    "map (\<lambda>g. toFixed2 (TaxGroup.taxAmount g)) (groupLinesByTax [one_at_four_fifty] True) =
       [''0.85'']"
    by (simp_all add: groupLinesByTax_single one_at_four_fifty_def calculateLineExtension_def
          taxPercent_or_0_def js_eval cong: let_weak_cong)
  have b: "toFixed2 (calculateLineExtension half_at_three_cents) = ''0.01''"
    "unitPrice half_at_three_cents = parseFloat ''0.03''"
    by (simp_all add: half_at_three_cents_def calculateLineExtension_def js_eval
          cong: let_weak_cong)
  have t1: "result_texts [''cac:InvoiceLine'', ''cbc:LineExtensionAmount'']
      (buildInvoiceXml plain_modules (Some (plain_input [one_at_four_fifty]))) = [''4.50'']"
    unfolding d(1) by (simp add: a)
  have t2: "result_texts [''cac:TaxTotal'', ''cac:TaxSubtotal'', ''cbc:TaxAmount'']
      (buildInvoiceXml plain_modules (Some (plain_input [one_at_four_fifty]))) = [''0.85'']"
    unfolding d(2) plain_groups_single by (simp add: a)
  have t3: "result_texts [''cac:InvoiceLine'', ''cbc:LineExtensionAmount'']
      (buildInvoiceXml plain_modules (Some (plain_input [half_at_three_cents]))) = [''0.01'']"
    unfolding e(1) by (simp add: b)
  show ?thesis
    by (intro conjI valid_plain_inputs(2,3) x t1 t2 t3 b(2))
qed

section \<open>The address normalizer on its examples, and its range\<close>

lemmas sanitizer_eval = sanitizeCounty_def sanitizeBucharestSector_def county_lookup_def
  normalized_words_def county_table_def strip_qualifiers_def qualifier_def separator_def
  lower_char_def lower_table_def diacritic_table_def sector_prefixes_def number_word_def
  attached_number_def Iasi_with_comma_below_def

lemma county_examples:
  "sanitizeCounty (Some ''cluj'') = Some ''RO-CJ''"
  "sanitizeCounty (Some Iasi_with_comma_below) = Some ''RO-IS''"
  "sanitizeCounty (Some ''bistrita-nasaud'') = Some ''RO-BN''"
  "sanitizeCounty (Some ''Mun. Iasi'') = Some ''RO-IS''"
  "sanitizeCounty (Some ''bucuresti'') = Some ''RO-B''"
  "sanitizeCounty (Some ''transilvania'') = None"
  by (simp_all add: sanitizer_eval js_eval cong: let_weak_cong)

lemma sector_examples:
  "sanitizeBucharestSector (Some ''sector 1'') = Some ''SECTOR1''"
  "sanitizeBucharestSector (Some ''s06'') = Some ''SECTOR6''"
  "sanitizeBucharestSector (Some ''sector 0'') = None"
  "sanitizeBucharestSector (Some ''sector 7'') = None"
  by (simp_all add: sanitizer_eval js_eval cong: let_weak_cong)

text \<open>The cases of the tests of the repository.\<close>

lemma county_tests:
  "sanitizeCounty (Some ('''')) = None"
  "sanitizeCounty (Some (''   '')) = None"
  "sanitizeCounty (Some (''cluj'')) = Some ''RO-CJ''"
  "sanitizeCounty (Some (''Alba'')) = Some ''RO-AB''"
  "sanitizeCounty (Some (''IASI'')) = Some ''RO-IS''"
  "sanitizeCounty (Some (''ilfov'')) = Some ''RO-IF''"
  "sanitizeCounty (Some (''botosani'')) = Some ''RO-BT''"
  "sanitizeCounty (Some (''buzau'')) = Some ''RO-BZ''"
  "sanitizeCounty (Some (''Ia'' @ [CHR 0xC8, CHR 0x99] @ ''i'')) = Some ''RO-IS''"
  "sanitizeCounty (Some (''D'' @ [CHR 0xC3, CHR 0xA2] @ ''mbovi'' @ [CHR 0xC8, CHR 0x9B] @ ''a'')) = Some ''RO-DB''"
  "sanitizeCounty (Some (''Timi'' @ [CHR 0xC8, CHR 0x99])) = Some ''RO-TM''"
  "sanitizeCounty (Some (''V'' @ [CHR 0xC3, CHR 0xA2] @ ''lcea'')) = Some ''RO-VL''"
  "sanitizeCounty (Some (''Timi'' @ [CHR 0xC5, CHR 0x9F])) = Some ''RO-TM''"
  "sanitizeCounty (Some (''D'' @ [CHR 0xC3, CHR 0xAE] @ ''mbovi'' @ [CHR 0xC5, CHR 0xA3] @ ''a'')) = Some ''RO-DB''"
  "sanitizeCounty (Some (''bistrita-nasaud'')) = Some ''RO-BN''"
  "sanitizeCounty (Some (''BISTRITA_NASAUD'')) = Some ''RO-BN''"
  "sanitizeCounty (Some (''bistrita.nasaud'')) = Some ''RO-BN''"
  "sanitizeCounty (Some (''bistrita, nasaud'')) = Some ''RO-BN''"
  "sanitizeCounty (Some (''satu-mare'')) = Some ''RO-SM''"
  "sanitizeCounty (Some (''satu_mare'')) = Some ''RO-SM''"
  "sanitizeCounty (Some (''caras-severin'')) = Some ''RO-CS''"
  "sanitizeCounty (Some (''caras_severin'')) = Some ''RO-CS''"
  "sanitizeCounty (Some (''caras,severin'')) = Some ''RO-CS''"
  "sanitizeCounty (Some (''judetul cluj'')) = Some ''RO-CJ''"
  "sanitizeCounty (Some (''Jude'' @ [CHR 0xC8, CHR 0x9B] @ ''ul Cluj'')) = Some ''RO-CJ''"
  "sanitizeCounty (Some (''municipiul iasi'')) = Some ''RO-IS''"
  "sanitizeCounty (Some (''Mun. Iasi'')) = Some ''RO-IS''"
  "sanitizeCounty (Some (''orasul constanta'')) = Some ''RO-CT''"
  "sanitizeCounty (Some (''comuna cluj'')) = Some ''RO-CJ''"
  "sanitizeCounty (Some (''municipiul bucuresti'')) = Some ''RO-B''"
  "sanitizeCounty (Some (''mun bucuresti'')) = Some ''RO-B''"
  "sanitizeCounty (Some (''bucuresti'')) = Some ''RO-B''"
  "sanitizeCounty (Some (''Bucure'' @ [CHR 0xC8, CHR 0x99] @ ''ti'')) = Some ''RO-B''"
  "sanitizeCounty (Some (''buc'')) = Some ''RO-B''"
  "sanitizeCounty (Some (''BUC'')) = Some ''RO-B''"
  "sanitizeCounty (Some (''vilcea'')) = Some ''RO-VL''"
  "sanitizeCounty (Some (''Vilcea'')) = Some ''RO-VL''"
  "sanitizeCounty (Some (''transilvania'')) = None"
  "sanitizeCounty (Some (''unknown county'')) = None"
  "sanitizeCounty (Some (''sector 1'')) = None"
  by (simp_all add: sanitizer_eval js_eval cong: let_weak_cong)

lemma sector_tests:
  "sanitizeBucharestSector (Some ('''')) = None"
  "sanitizeBucharestSector (Some (''   '')) = None"
  "sanitizeBucharestSector (Some (''sector 1'')) = Some ''SECTOR1''"
  "sanitizeBucharestSector (Some (''Sectorul 2'')) = Some ''SECTOR2''"
  "sanitizeBucharestSector (Some (''SECTOR3'')) = Some ''SECTOR3''"
  "sanitizeBucharestSector (Some (''sector 06'')) = Some ''SECTOR6''"
  "sanitizeBucharestSector (Some (''sector06'')) = Some ''SECTOR6''"
  "sanitizeBucharestSector (Some (''sectorul06'')) = Some ''SECTOR6''"
  "sanitizeBucharestSector (Some (''s1'')) = Some ''SECTOR1''"
  "sanitizeBucharestSector (Some (''S2'')) = Some ''SECTOR2''"
  "sanitizeBucharestSector (Some (''s06'')) = Some ''SECTOR6''"
  "sanitizeBucharestSector (Some (''Sector 4 Bucuresti'')) = Some ''SECTOR4''"
  "sanitizeBucharestSector (Some (''Bucuresti sector 5'')) = Some ''SECTOR5''"
  "sanitizeBucharestSector (Some (''Sectorul_6'')) = Some ''SECTOR6''"
  "sanitizeBucharestSector (Some (''Sect. 3'')) = Some ''SECTOR3''"
  "sanitizeBucharestSector (Some (''Sector 3 Mun. Bucure'' @ [CHR 0xC5, CHR 0x9F] @ ''ti'')) = Some ''SECTOR3''"
  "sanitizeBucharestSector (Some (''sector 0'')) = None"
  "sanitizeBucharestSector (Some (''sector 7'')) = None"
  "sanitizeBucharestSector (Some (''sectorul 9'')) = None"
  "sanitizeBucharestSector (Some (''s0'')) = None"
  "sanitizeBucharestSector (Some (''s7'')) = None"
  "sanitizeBucharestSector (Some (''bucuresti'')) = None"
  "sanitizeBucharestSector (Some (''ilfov'')) = None"
  by (simp_all add: sanitizer_eval js_eval cong: let_weak_cong)

lemma dropWhile_prefix_free:
  assumes "xs = [] \<or> \<not> P (hd xs)"
  shows "dropWhile P (rev (dropWhile P (rev xs))) = rev (dropWhile P (rev xs))"
proof (cases "rev (dropWhile P (rev xs))")
  case Nil
  show ?thesis
    unfolding Nil by simp
next
  case (Cons b bs)
  have "rev xs = takeWhile P (rev xs) @ dropWhile P (rev xs)"
    by simp
  then have "xs = rev (dropWhile P (rev xs)) @ rev (takeWhile P (rev xs))"
    by (metis rev_append rev_rev_ident)
  with Cons have xs: "xs = b # bs @ rev (takeWhile P (rev xs))"
    by simp
  then have "xs \<noteq> []" "hd xs = b"
    by (metis list.distinct(1), metis list.sel(1))
  with assms have "\<not> P b"
    by simp
  with Cons show ?thesis
    by simp
qed

lemma strip_qualifiers_idem: "strip_qualifiers (strip_qualifiers ws) = strip_qualifiers ws"
proof -
  let ?a = "dropWhile qualifier ws"
  have a: "?a = [] \<or> \<not> qualifier (hd ?a)"
    using hd_dropWhile [of qualifier ws] by blast
  have "dropWhile qualifier (rev (dropWhile qualifier (rev ?a))) =
      rev (dropWhile qualifier (rev ?a))"
    using a by (rule dropWhile_prefix_free)
  then show ?thesis
    by (simp add: strip_qualifiers_def)
qed

lemma county_lookup_range:
  "county_lookup ws = Some c \<Longrightarrow> c \<in> set (map snd county_table)"
  unfolding county_lookup_def by (drule map_of_SomeD) force

lemma sanitizeCounty_range:
  "sanitizeCounty x = Some c \<Longrightarrow> c \<in> set (map snd county_table)"
  by (auto simp: sanitizeCounty_def simp del: set_map dest: county_lookup_range
        split: option.splits if_splits)

lemma sector_code_cases:
  assumes "1 \<le> n" "n \<le> 6"
  shows "''SECTOR'' @ digits n \<in> set sector_codes"
proof -
  from assms have "n \<in> {1, 2, 3, 4, 5, 6}"
    by auto
  then show ?thesis
    by (elim insertE emptyE) (simp_all add: sector_codes_def js_eval)
qed

lemma sanitizeBucharestSector_range:
  assumes "sanitizeBucharestSector x = Some r"
  shows "r \<in> set sector_codes"
proof -
  from assms obtain s n ns where
    f: "filter (\<lambda>n. 1 \<le> n \<and> n \<le> 6) (sector_numbers (normalized_words s)) = n # ns"
    and r: "r = ''SECTOR'' @ digits n"
    by (auto simp: sanitizeBucharestSector_def split: option.splits if_splits list.splits)
  from f have "n \<in> set (filter (\<lambda>n. 1 \<le> n \<and> n \<le> 6) (sector_numbers (normalized_words s)))"
    by simp
  then have "1 \<le> n" "n \<le> 6"
    by simp_all
  then show ?thesis
    unfolding r by (rule sector_code_cases)
qed

lemma sector_of_digit:
  assumes "n \<le> 9"
  shows "sanitizeBucharestSector (Some (''sector '' @ digits n)) =
      (if 1 \<le> n \<and> n \<le> 6 then Some (''SECTOR'' @ digits n) else None)"
    and "sanitizeBucharestSector (Some (''s0'' @ digits n)) =
      (if 1 \<le> n \<and> n \<le> 6 then Some (''SECTOR'' @ digits n) else None)"
proof -
  from assms have c: "n \<in> {0, 1, 2, 3, 4, 5, 6, 7, 8, 9}"
    by auto
  from c show "sanitizeBucharestSector (Some (''sector '' @ digits n)) =
      (if 1 \<le> n \<and> n \<le> 6 then Some (''SECTOR'' @ digits n) else None)"
    by (elim insertE emptyE) (simp_all add: sanitizer_eval js_eval cong: let_weak_cong)
  from c show "sanitizeBucharestSector (Some (''s0'' @ digits n)) =
      (if 1 \<le> n \<and> n \<le> 6 then Some (''SECTOR'' @ digits n) else None)"
    by (elim insertE emptyE) (simp_all add: sanitizer_eval js_eval cong: let_weak_cong)
qed

lemma split_words_clean:
  assumes "w \<in> set (split_words a t)" "\<forall>c\<in>set a. \<not> separator c \<and> Q c"
    "\<forall>c\<in>set t. Q c"
  shows "w \<noteq> [] \<and> (\<forall>c\<in>set w. \<not> separator c \<and> Q c)"
  using assms
proof (induction t arbitrary: a)
  case Nil
  then show ?case
    by (auto split: if_splits)
next
  case (Cons c t)
  show ?case
  proof (cases "separator c")
    case True
    with Cons.prems(1) have "w \<in> set (if a = [] then [] else [rev a]) \<or>
        w \<in> set (split_words [] t)"
      by simp
    then show ?thesis
    proof
      assume "w \<in> set (if a = [] then [] else [rev a])"
      with Cons.prems(2) show ?thesis
        by (auto split: if_splits)
    next
      assume "w \<in> set (split_words [] t)"
      then show ?thesis
        using Cons.prems(3) by (intro Cons.IH [of "[]"]) simp_all
    qed
  next
    case False
    with Cons.prems(1) have "w \<in> set (split_words (c # a) t)"
      by simp
    then show ?thesis
      using Cons.prems(2,3) False by (intro Cons.IH [of "c # a"]) simp_all
  qed
qed

lemma lower_char_lower: "lower_char c \<notin> set (map fst lower_table)"
proof (cases "map_of lower_table c")
  case None
  then have "lower_char c = c"
    by (simp add: lower_char_def)
  moreover from None have "c \<notin> set (map fst lower_table)"
    by (simp add: map_of_eq_None_iff)
  ultimately show ?thesis
    by (simp del: set_map)
next
  case (Some l)
  then have "l \<in> set (map snd lower_table)"
    by (metis map_of_SomeD set_zip_rightD zip_map_fst_snd)
  then have "l \<notin> set (map fst lower_table)"
    unfolding lower_table_def by (simp del: set_map) (elim disjE; simp)
  with Some show ?thesis
    by (simp add: lower_char_def del: set_map)
qed

lemma fold_letters_lower: "c \<in> set (fold_letters s) \<Longrightarrow> c \<notin> set (map fst lower_table)"
proof (induction s rule: fold_letters.induct)
  case 1
  then show ?case by simp
next
  case (2 c')
  then show ?case
    using lower_char_lower [of c'] by simp
next
  case (3 c' d r)
  show ?case
  proof (cases "map_of diacritic_table (c', d)")
    case None
    with 3(3) have "c = lower_char c' \<or> c \<in> set (fold_letters (d # r))"
      by simp
    then show ?thesis
      using lower_char_lower [of c'] 3(1) [OF None] by (auto simp del: set_map)
  next
    case (Some b)
    then have "b \<in> set (map snd diacritic_table)"
      by (metis map_of_SomeD set_zip_rightD zip_map_fst_snd)
    then have b: "b \<notin> set (map fst lower_table)"
      unfolding diacritic_table_def lower_table_def by (simp del: set_map) (elim disjE; simp)
    from 3(3) Some have "c = b \<or> c \<in> set (fold_letters r)"
      by simp
    then show ?thesis
      using b 3(2) [OF Some] by (auto simp del: set_map)
  qed
qed

lemma normalized_words_clean:
  assumes "w \<in> set (normalized_words s)"
  shows "w \<noteq> [] \<and> (\<forall>c\<in>set w. \<not> separator c \<and> c \<notin> set (map fst lower_table))"
  using assms unfolding normalized_words_def
  by (rule split_words_clean) (simp_all add: fold_letters_lower del: set_map)

text \<open>
  C7. \<^verbatim>\<open>sanitizeCounty\<close> as the specification describes it gives nothing for an
  absent, empty or white-space input. Otherwise it gives the code that the table
  has for the normalized input and, when the table has none, the code that it has
  for the normalized input without its leading and trailing qualifier words, or
  nothing; stripping a second time changes nothing. The words of the normalized
  input are not empty and have no separator and no upper-case letter. A result is
  always a code of the table. The six inputs of the specification give RO-CJ,
  RO-IS, RO-BN, RO-IS, RO-B and nothing.
\<close>

theorem C7_sanitizeCounty:
  "sanitizeCounty None = None \<and>
   (trim s = [] \<longrightarrow> sanitizeCounty (Some s) = None) \<and>
   (trim s \<noteq> [] \<longrightarrow>
      sanitizeCounty (Some s) =
        (case county_lookup (normalized_words s) of
           Some code \<Rightarrow> Some code
         | None \<Rightarrow> county_lookup (strip_qualifiers (normalized_words s)))) \<and>
   (\<forall>w\<in>set (normalized_words s).
      w \<noteq> [] \<and> (\<forall>c\<in>set w. \<not> separator c \<and> c \<notin> set (map fst lower_table))) \<and>
   strip_qualifiers (strip_qualifiers ws) = strip_qualifiers ws \<and>
   (sanitizeCounty x = Some code \<longrightarrow> code \<in> set (map snd county_table)) \<and>
   sanitizeCounty (Some ''cluj'') = Some ''RO-CJ'' \<and>
   sanitizeCounty (Some Iasi_with_comma_below) = Some ''RO-IS'' \<and>
   sanitizeCounty (Some ''bistrita-nasaud'') = Some ''RO-BN'' \<and>
   sanitizeCounty (Some ''Mun. Iasi'') = Some ''RO-IS'' \<and>
   sanitizeCounty (Some ''bucuresti'') = Some ''RO-B'' \<and>
   sanitizeCounty (Some ''transilvania'') = None"
proof -
  have a: "sanitizeCounty None = None"
    by (simp add: sanitizeCounty_def)
  have b: "trim s = [] \<longrightarrow> sanitizeCounty (Some s) = None"
    by (simp add: sanitizeCounty_def)
  have c: "trim s \<noteq> [] \<longrightarrow>
      sanitizeCounty (Some s) =
        (case county_lookup (normalized_words s) of
           Some code \<Rightarrow> Some code
         | None \<Rightarrow> county_lookup (strip_qualifiers (normalized_words s)))"
    by (simp add: sanitizeCounty_def)
  have d: "\<forall>w\<in>set (normalized_words s).
      w \<noteq> [] \<and> (\<forall>c\<in>set w. \<not> separator c \<and> c \<notin> set (map fst lower_table))"
    using normalized_words_clean by blast
  have e: "sanitizeCounty x = Some code \<longrightarrow> code \<in> set (map snd county_table)"
    using sanitizeCounty_range by blast
  show ?thesis
    by (intro conjI a b c d e strip_qualifiers_idem county_examples)
qed

theorem C7_sanitizeCounty_witness:
  "sanitizeCounty (Some ''   '') = None \<and>
   sanitizeCounty (Some ''Judetul Cluj'') = county_lookup [''cluj''] \<and>
   ''RO-CJ'' \<in> set (map snd county_table)"
proof -
  have t: "trim ''   '' = []" "trim ''Judetul Cluj'' \<noteq> []"
    by (simp_all add: js_eval)
  have n: "normalized_words ''Judetul Cluj'' = [''judetul'', ''cluj'']"
    by (simp add: sanitizer_eval js_eval)
  have l: "county_lookup [''judetul'', ''cluj''] = None"
    by (simp add: sanitizer_eval)
  have q: "strip_qualifiers [''judetul'', ''cluj''] = [''cluj'']"
    by (simp add: sanitizer_eval)
  from C7_sanitizeCounty [of "''   ''" "[]" "Some ''cluj''" "''RO-CJ''"]
    C7_sanitizeCounty [of "''Judetul Cluj''" "[]" "Some ''cluj''" "''RO-CJ''"]
  show ?thesis
    unfolding n l q using t by simp
qed

text \<open>
  C8. \<^verbatim>\<open>sanitizeBucharestSector\<close> as the specification describes it gives nothing
  for an absent, empty or white-space input. Otherwise it gives the first sector
  token of the normalized input whose number is from 1 to 6, as SECTOR and the
  number without padding, or nothing when there is none; a result is always one of
  the six sector codes. For a digit after \<^verbatim>\<open>sector\<close> and a space, or after \<^verbatim>\<open>s0\<close>, it
  gives the sector of the digit from 1 to 6 and nothing for 0, 7, 8 and 9. The
  inputs of the specification give SECTOR1, SECTOR6, nothing and nothing, and
  words around the token are ignored.
\<close>

theorem C8_sanitizeBucharestSector:
  "sanitizeBucharestSector None = None \<and>
   (trim s = [] \<longrightarrow> sanitizeBucharestSector (Some s) = None) \<and>
   (trim s \<noteq> [] \<longrightarrow>
      sanitizeBucharestSector (Some s) =
        (case filter (\<lambda>n. 1 \<le> n \<and> n \<le> 6) (sector_numbers (normalized_words s)) of
           [] \<Rightarrow> None
         | n # _ \<Rightarrow> Some (''SECTOR'' @ digits n))) \<and>
   (sanitizeBucharestSector x = Some r \<longrightarrow> r \<in> set sector_codes) \<and>
   (k \<le> 9 \<longrightarrow>
      sanitizeBucharestSector (Some (''sector '' @ digits k)) =
        (if 1 \<le> k \<and> k \<le> 6 then Some (''SECTOR'' @ digits k) else None)) \<and>
   (k \<le> 9 \<longrightarrow>
      sanitizeBucharestSector (Some (''s0'' @ digits k)) =
        (if 1 \<le> k \<and> k \<le> 6 then Some (''SECTOR'' @ digits k) else None)) \<and>
   sanitizeBucharestSector (Some ''sector 1'') = Some ''SECTOR1'' \<and>
   sanitizeBucharestSector (Some ''s06'') = Some ''SECTOR6'' \<and>
   sanitizeBucharestSector (Some ''sector 0'') = None \<and>
   sanitizeBucharestSector (Some ''sector 7'') = None \<and>
   sanitizeBucharestSector (Some ''Sector 4 Bucuresti'') = Some ''SECTOR4'' \<and>
   sanitizeBucharestSector (Some ''Bucuresti sector 5'') = Some ''SECTOR5''"
proof -
  have a: "sanitizeBucharestSector None = None"
    by (simp add: sanitizeBucharestSector_def)
  have b: "trim s = [] \<longrightarrow> sanitizeBucharestSector (Some s) = None"
    by (simp add: sanitizeBucharestSector_def)
  have c: "trim s \<noteq> [] \<longrightarrow>
      sanitizeBucharestSector (Some s) =
        (case filter (\<lambda>n. 1 \<le> n \<and> n \<le> 6) (sector_numbers (normalized_words s)) of
           [] \<Rightarrow> None
         | n # _ \<Rightarrow> Some (''SECTOR'' @ digits n))"
    by (simp add: sanitizeBucharestSector_def)
  have d: "sanitizeBucharestSector x = Some r \<longrightarrow> r \<in> set sector_codes"
    using sanitizeBucharestSector_range by blast
  have e: "k \<le> 9 \<longrightarrow>
      sanitizeBucharestSector (Some (''sector '' @ digits k)) =
        (if 1 \<le> k \<and> k \<le> 6 then Some (''SECTOR'' @ digits k) else None)"
    "k \<le> 9 \<longrightarrow>
      sanitizeBucharestSector (Some (''s0'' @ digits k)) =
        (if 1 \<le> k \<and> k \<le> 6 then Some (''SECTOR'' @ digits k) else None)"
    using sector_of_digit [of k] by blast+
  have f: "sanitizeBucharestSector (Some ''Sector 4 Bucuresti'') = Some ''SECTOR4''"
    "sanitizeBucharestSector (Some ''Bucuresti sector 5'') = Some ''SECTOR5''"
    by (simp_all add: sanitizer_eval js_eval cong: let_weak_cong)
  show ?thesis
    by (intro conjI a b c d e sector_examples f)
qed

theorem C8_sanitizeBucharestSector_witness:
  "sanitizeBucharestSector (Some ''   '') = None \<and>
   sanitizeBucharestSector (Some ''sector 3'') = Some ''SECTOR3'' \<and>
   sanitizeBucharestSector (Some ''s03'') = Some ''SECTOR3'' \<and>
   ''SECTOR3'' \<in> set sector_codes"
proof -
  have t: "trim ''   '' = []"
    by (simp add: js_eval)
  have x: "sanitizeBucharestSector (Some ''sector 3'') = Some ''SECTOR3''"
    by (simp add: sanitizer_eval js_eval cong: let_weak_cong)
  have k: "(3::nat) \<le> 9" "digits 3 = ''3''"
    by (simp_all add: js_eval)
  from C8_sanitizeBucharestSector [of "''   ''" "Some ''sector 3''" "''SECTOR3''" 3]
  show ?thesis
    unfolding k(2) using t x k(1) by simp
qed

end
